theory Spec2Isabelle
  imports Complex_Main "HOL-Library.Sublist"
begin

section \<open>Strings as the pipeline sees them\<close>

text \<open>
  Python strings are modelled as \<open>string\<close> (lists of 8-bit characters) and every
  character class below is the ASCII part of the class Python uses: the development
  covers requests written in ASCII. \<open>str.upper\<close> and \<open>str.lower\<close> change the 26
  letters only, \<open>str.isdigit\<close> knows the ten digits, whitespace is what \<open>str.strip\<close>
  and the regular expression class \<open>\s\<close> share below code point 128 (tab, line feed,
  vertical tab, form feed, carriage return, the four separators 0x1C-0x1F, space), and
  a word character (\<open>\w\<close>) is a letter, a digit or the underscore.
\<close>

definition upper_letters :: string where
  "upper_letters = ''ABCDEFGHIJKLMNOPQRSTUVWXYZ''"

definition lower_letters :: string where
  "lower_letters = ''abcdefghijklmnopqrstuvwxyz''"

definition digits :: string where
  "digits = ''0123456789''"

definition is_AZ :: "char \<Rightarrow> bool" where
  "is_AZ c = List.member upper_letters c"

definition is_az :: "char \<Rightarrow> bool" where
  "is_az c = List.member lower_letters c"

definition is_digit :: "char \<Rightarrow> bool" where
  "is_digit c = List.member digits c"

text \<open>The character class \<open>[A-Z0-9]\<close>.\<close>

definition is_AZ09 :: "char \<Rightarrow> bool" where
  "is_AZ09 c = (if is_AZ c then True else is_digit c)"

text \<open>The character class \<open>[A-Z0-9.]\<close>, whose complement the URL branch deletes.\<close>

definition is_AZ09dot :: "char \<Rightarrow> bool" where
  "is_AZ09dot c = (if is_AZ09 c then True else c = CHR ''.'')"

text \<open>\<open>\w\<close>: letters of either case, digits, underscore.\<close>

definition is_word :: "char \<Rightarrow> bool" where
  "is_word c = (if is_AZ09 c then True else if is_az c then True else c = CHR ''_'')"

definition is_space :: "char \<Rightarrow> bool" where
  "is_space c = List.member
     [CHR 0x09, CHR 0x0A, CHR 0x0B, CHR 0x0C, CHR 0x0D,
      CHR 0x1C, CHR 0x1D, CHR 0x1E, CHR 0x1F, CHR 0x20] c"

definition non_space :: "char \<Rightarrow> bool" where
  "non_space c = (\<not> is_space c)"

definition to_upper :: "char \<Rightarrow> char" where
  "to_upper c = (case map_of (zip lower_letters upper_letters) c of
                   Some u \<Rightarrow> u | None \<Rightarrow> c)"

definition to_lower :: "char \<Rightarrow> char" where
  "to_lower c = (case map_of (zip upper_letters lower_letters) c of
                   Some l \<Rightarrow> l | None \<Rightarrow> c)"

definition upper :: "string \<Rightarrow> string" where
  "upper s = map to_upper s"

definition lower :: "string \<Rightarrow> string" where
  "lower s = map to_lower s"

text \<open>\<open>str.isdigit\<close>: at least one character, and digits only.\<close>

definition isdigit :: "string \<Rightarrow> bool" where
  "isdigit s = (if s = [] then False else list_all is_digit s)"

text \<open>\<open>s.lstrip(chars)\<close>, \<open>s.rstrip(chars)\<close> and \<open>s.strip(chars)\<close> for a class of characters.\<close>

definition lstrip_by :: "(char \<Rightarrow> bool) \<Rightarrow> string \<Rightarrow> string" where
  "lstrip_by p s = dropWhile p s"

definition rstrip_by :: "(char \<Rightarrow> bool) \<Rightarrow> string \<Rightarrow> string" where
  "rstrip_by p s = rev (dropWhile p (rev s))"

definition strip_by :: "(char \<Rightarrow> bool) \<Rightarrow> string \<Rightarrow> string" where
  "strip_by p s = rstrip_by p (lstrip_by p s)"

definition strip :: "string \<Rightarrow> string" where
  "strip s = strip_by is_space s"

text \<open>\<open>s.startswith(p)\<close>, \<open>s.endswith(p)\<close> and \<open>p in s\<close>.\<close>

fun startswith :: "string \<Rightarrow> string \<Rightarrow> bool" where
  "startswith s [] = True"
| "startswith [] (p # ps) = False"
| "startswith (c # cs) (p # ps) = (if c = p then startswith cs ps else False)"

definition endswith :: "string \<Rightarrow> string \<Rightarrow> bool" where
  "endswith s p = startswith (rev s) (rev p)"

fun contains :: "string \<Rightarrow> string \<Rightarrow> bool" where
  "contains [] p = (p = [])"
| "contains (c # cs) p = (if startswith (c # cs) p then True else contains cs p)"

text \<open>\<open>s.split(sep)\<close> for a one-character separator: the fields, empty ones included.\<close>

fun split_on :: "char \<Rightarrow> string \<Rightarrow> string list" where
  "split_on sep [] = [[]]"
| "split_on sep (c # cs) =
     (case split_on sep cs of
        [] \<Rightarrow> (if c = sep then [[], []] else [[c]])
      | f # fs \<Rightarrow> (if c = sep then [] # f # fs else (c # f) # fs))"

text \<open>
  \<open>s.partition(sep)\<close> for a one-character separator, as the part before the first
  separator and the part after it (the whole string and the empty string when there is
  none).
\<close>

definition before_first :: "char \<Rightarrow> string \<Rightarrow> string" where
  "before_first sep s = takeWhile (\<lambda>c. c \<noteq> sep) s"

definition after_first :: "char \<Rightarrow> string \<Rightarrow> string" where
  "after_first sep s = drop 1 (dropWhile (\<lambda>c. c \<noteq> sep) s)"

text \<open>\<open>s.rpartition(sep)[2]\<close>: what follows the last separator, or the whole string.\<close>

definition after_last :: "char \<Rightarrow> string \<Rightarrow> string" where
  "after_last sep s = rev (takeWhile (\<lambda>c. c \<noteq> sep) (rev s))"

text \<open>\<open>s.replace(old, new)\<close> for a non-empty \<open>old\<close>: leftmost occurrences, not overlapping.\<close>

fun replace_skip :: "nat \<Rightarrow> string \<Rightarrow> string \<Rightarrow> string \<Rightarrow> string" where
  "replace_skip k old new [] = []"
| "replace_skip (Suc k) old new (c # cs) = replace_skip k old new cs"
| "replace_skip 0 old new (c # cs) =
     (if startswith (c # cs) old then new @ replace_skip (length old - 1) old new cs
      else c # replace_skip 0 old new cs)"

definition replace :: "string \<Rightarrow> string \<Rightarrow> string \<Rightarrow> string" where
  "replace old new s = replace_skip 0 old new s"

text \<open>\<open>sep.join(xs)\<close>.\<close>

fun join :: "string \<Rightarrow> string list \<Rightarrow> string" where
  "join sep [] = []"
| "join sep [x] = x"
| "join sep (x # y # ys) = x @ sep @ join sep (y # ys)"


section \<open>The regular expressions of the normalizer\<close>

text \<open>
  Each pattern of \<open>normalize_asx_code\<close> is translated into the matcher the backtracking
  engine of \<open>re\<close> amounts to on it. A greedy run of a character class that is followed
  by a character outside the class has nothing to gain from backtracking, so it is
  \<open>takeWhile\<close>; where backtracking does matter (the domain part of an e-mail address)
  the candidates are tried in the engine's order.
\<close>

subsection \<open>\<open>https?://\S+\<close>\<close>

text \<open>
  \<open>ci\<close> is the flag \<open>re.IGNORECASE\<close>. The match anchored at the start of the text:
  \<open>https://\<close> or \<open>http://\<close> (the two cannot both fit), then the non-empty run of
  characters that are not whitespace. The result is the matched text.
\<close>

definition lit_match :: "bool \<Rightarrow> string \<Rightarrow> string \<Rightarrow> bool" where
  "lit_match ci lit t =
     (if ci then startswith (lower t) lit else startswith t lit)"

definition url_match_at :: "bool \<Rightarrow> string \<Rightarrow> string option" where
  "url_match_at ci t =
     (if lit_match ci ''https://'' t then
        (let r = takeWhile non_space (drop 8 t)
         in if r = [] then None else Some (take 8 t @ r))
      else if lit_match ci ''http://'' t then
        (let r = takeWhile non_space (drop 7 t)
         in if r = [] then None else Some (take 7 t @ r))
      else None)"

text \<open>\<open>re.search\<close>: the match at the leftmost position that has one.\<close>

fun url_search :: "bool \<Rightarrow> string \<Rightarrow> string option" where
  "url_search ci [] = None"
| "url_search ci (c # cs) =
     (case url_match_at ci (c # cs) of
        Some m \<Rightarrow> Some m
      | None \<Rightarrow> url_search ci cs)"

text \<open>
  \<open>re.sub(pattern, " ", text)\<close> for a pattern that never matches the empty string:
  \<open>m_at\<close> gives the length of the match anchored at the start of the text. The
  counter is the number of characters of the last match still to be skipped.
\<close>

fun re_sub_space :: "(string \<Rightarrow> nat option) \<Rightarrow> nat \<Rightarrow> string \<Rightarrow> string" where
  "re_sub_space m_at k [] = []"
| "re_sub_space m_at (Suc k) (c # cs) = re_sub_space m_at k cs"
| "re_sub_space m_at 0 (c # cs) =
     (case m_at (c # cs) of
        Some n \<Rightarrow> CHR '' '' # re_sub_space m_at (n - 1) cs
      | None \<Rightarrow> c # re_sub_space m_at 0 cs)"

definition sub_urls :: "string \<Rightarrow> string" where
  "sub_urls t = re_sub_space (\<lambda>u. map_option length (url_match_at False u)) 0 t"

subsection \<open>\<open>[A-Z0-9._%+-]+@[A-Z0-9.-]+\.[A-Z]{2,}\<close>\<close>

definition is_email_local :: "char \<Rightarrow> bool" where
  "is_email_local c = (if is_AZ09 c then True else List.member ''._%+-'' c)"

definition is_email_domain :: "char \<Rightarrow> bool" where
  "is_email_domain c = (if is_AZ09 c then True else List.member ''.-'' c)"

text \<open>
  The local part is the whole run of its class (the character after it has to be \<open>@\<close>,
  which is outside the class). The domain part starts as the whole run \<open>d\<close> of its
  class and is given back one character at a time, down to one character, until what
  follows it is a dot and at least two letters: \<open>k\<close> is the length kept, tried from
  the longest.
\<close>

definition tld_at :: "string \<Rightarrow> nat \<Rightarrow> nat option" where
  "tld_at d k =
     (if k < length d \<and> d ! k = CHR ''.'' then
        (let n = length (takeWhile is_AZ (drop (k + 1) d))
         in if 2 \<le> n then Some (k + 1 + n) else None)
      else None)"

fun domain_backtrack :: "string \<Rightarrow> nat \<Rightarrow> nat option" where
  "domain_backtrack d 0 = None"
| "domain_backtrack d (Suc k) =
     (case tld_at d (Suc k) of
        Some n \<Rightarrow> Some n
      | None \<Rightarrow> domain_backtrack d k)"

definition email_match_at :: "string \<Rightarrow> nat option" where
  "email_match_at t =
     (let l = takeWhile is_email_local t
      in if l = [] then None
         else (case drop (length l) t of
                 [] \<Rightarrow> None
               | a # r \<Rightarrow>
                   (if a = CHR ''@'' then
                      (let d = takeWhile is_email_domain r
                       in map_option (\<lambda>n. length l + 1 + n)
                            (domain_backtrack d (length d)))
                    else None)))"

definition sub_emails :: "string \<Rightarrow> string" where
  "sub_emails t = re_sub_space email_match_at 0 t"

subsection \<open>The marker patterns and the token pattern\<close>

text \<open>
  \<open>([A-Z0-9]{2,6})\b\<close> anchored at the start of the text: the group is the whole run
  of \<open>[A-Z0-9]\<close> there, which must have 2 to 6 characters and end at a word boundary
  (a shorter group would be followed by a word character).
\<close>

definition at_word_end :: "string \<Rightarrow> bool" where
  "at_word_end t = (case t of [] \<Rightarrow> True | c # _ \<Rightarrow> \<not> is_word c)"

definition code_group :: "string \<Rightarrow> string option" where
  "code_group t =
     (let g = takeWhile is_AZ09 t
      in if 2 \<le> length g \<and> length g \<le> 6 \<and> at_word_end (drop (length g) t)
         then Some g else None)"

definition skip_spaces :: "string \<Rightarrow> string" where
  "skip_spaces t = dropWhile is_space t"

definition is_colon_or_dash :: "char \<Rightarrow> bool" where
  "is_colon_or_dash c = List.member '':-'' c"

text \<open>\<open>ASX\s*[:\-]\s*([A-Z0-9]{2,6})\b\<close> after the leading \<open>\b\<close>.\<close>

definition asx_colon_at :: "string \<Rightarrow> string option" where
  "asx_colon_at t =
     (if startswith t ''ASX'' then
        (case skip_spaces (drop 3 t) of
           [] \<Rightarrow> None
         | c # r \<Rightarrow> (if is_colon_or_dash c then code_group (skip_spaces r) else None))
      else None)"

text \<open>\<open>KEYWORD\s+([A-Z0-9]{2,6})\b\<close> after the leading \<open>\b\<close>, for \<open>ASX\<close> and \<open>FOR\<close>.\<close>

definition keyword_space_at :: "string \<Rightarrow> string \<Rightarrow> string option" where
  "keyword_space_at kw t =
     (if startswith t kw then
        (case drop (length kw) t of
           [] \<Rightarrow> None
         | c # r \<Rightarrow> (if is_space c then code_group (skip_spaces r) else None))
      else None)"

text \<open>
  \<open>(?:CODE|TICKER|COMPANY)\s*[:\-]?\s*([A-Z0-9]{2,6})\b\<close> after the leading \<open>\b\<close>.
  At most one keyword fits; the separator is taken when it is there (without it the
  group would have to start at the separator).
\<close>

definition label_rest :: "string \<Rightarrow> string option" where
  "label_rest t =
     (case skip_spaces t of
        [] \<Rightarrow> None
      | c # r \<Rightarrow> (if is_colon_or_dash c then code_group (skip_spaces r)
                  else code_group (c # r)))"

definition label_at :: "string \<Rightarrow> string option" where
  "label_at t =
     (if startswith t ''CODE'' then label_rest (drop 4 t)
      else if startswith t ''TICKER'' then label_rest (drop 6 t)
      else if startswith t ''COMPANY'' then label_rest (drop 7 t)
      else None)"

text \<open>
  \<open>re.search\<close> for a pattern \<open>\b\<close>\<open>m_at\<close> that begins with a word character: the
  positions are tried from the left, \<open>prev\<close> is the character before the position
  (none at the start), and a position is a word boundary when that character is not a
  word character. The result is group 1 of the leftmost match.
\<close>

definition at_word_start :: "char option \<Rightarrow> bool" where
  "at_word_start prev = (case prev of None \<Rightarrow> True | Some p \<Rightarrow> \<not> is_word p)"

fun search_b :: "(string \<Rightarrow> string option) \<Rightarrow> char option \<Rightarrow> string \<Rightarrow> string option" where
  "search_b m_at prev [] = None"
| "search_b m_at prev (c # cs) =
     (if at_word_start prev then
        (case m_at (c # cs) of
           Some g \<Rightarrow> Some g
         | None \<Rightarrow> search_b m_at (Some c) cs)
      else search_b m_at (Some c) cs)"

text \<open>
  \<open>[A-Z][A-Z0-9]{1,5}\b\<close> after the leading \<open>\b\<close>: a letter, and the run of
  \<open>[A-Z0-9]\<close> it starts has 2 to 6 characters and ends at a word boundary.
\<close>

definition token_at :: "string \<Rightarrow> string option" where
  "token_at t =
     (case t of
        [] \<Rightarrow> None
      | c # _ \<Rightarrow> (if is_AZ c then code_group t else None))"

text \<open>
  \<open>re.findall(r"\b[A-Z][A-Z0-9]{1,5}\b", text)\<close>. A match ends where its run of word
  characters ends, and no position inside a match is a word boundary, so scanning
  every position finds exactly the matches that do not overlap.
\<close>

fun findall_tokens :: "char option \<Rightarrow> string \<Rightarrow> string list" where
  "findall_tokens prev [] = []"
| "findall_tokens prev (c # cs) =
     (if at_word_start prev then
        (case token_at (c # cs) of
           Some g \<Rightarrow> g # findall_tokens (Some c) cs
         | None \<Rightarrow> findall_tokens (Some c) cs)
      else findall_tokens (Some c) cs)"

section \<open>The URL functions of the standard library\<close>

text \<open>
  \<open>urllib.parse.urlparse\<close> as CPython defines it, on ASCII text. \<open>None\<close> stands for
  the \<open>ValueError\<close> it raises when the square brackets of the network location do not
  pair up (the further checks that recent versions make on a bracketed host are not
  modelled: no URL below has a bracket).
\<close>

record url =
  scheme :: string
  netloc :: string
  path :: string
  params :: string
  query :: string
  fragment :: string

definition is_c0_or_space :: "char \<Rightarrow> bool" where
  "is_c0_or_space c = ((of_char c :: nat) \<le> 32)"

definition is_unsafe_url_byte :: "char \<Rightarrow> bool" where
  "is_unsafe_url_byte c = List.member [CHR 0x09, CHR 0x0D, CHR 0x0A] c"

definition is_scheme_char :: "char \<Rightarrow> bool" where
  "is_scheme_char c =
     (if is_AZ09 c then True else if is_az c then True else List.member ''+-.'' c)"

definition is_alpha :: "char \<Rightarrow> bool" where
  "is_alpha c = (if is_AZ c then True else is_az c)"

text \<open>The scheme is split off when a colon follows a non-empty run of scheme characters
  that starts with a letter.\<close>

definition split_scheme :: "string \<Rightarrow> string \<times> string" where
  "split_scheme u =
     (let s = before_first (CHR '':'') u
      in if List.member u (CHR '':'') \<and> list_all is_scheme_char s
            \<and> (case s of [] \<Rightarrow> False | c # _ \<Rightarrow> is_alpha c)
         then (lower s, after_first (CHR '':'') u)
         else ([], u))"

definition is_netloc_delim :: "char \<Rightarrow> bool" where
  "is_netloc_delim c = List.member ''/?#'' c"

definition split_netloc :: "string \<Rightarrow> string \<times> string" where
  "split_netloc u =
     (if startswith u ''//'' then
        (takeWhile (\<lambda>c. \<not> is_netloc_delim c) (drop 2 u),
         dropWhile (\<lambda>c. \<not> is_netloc_delim c) (drop 2 u))
      else ([], u))"

definition brackets_pair_up :: "string \<Rightarrow> bool" where
  "brackets_pair_up n = (List.member n (CHR ''['') = List.member n (CHR '']''))"

definition urlsplit :: "string \<Rightarrow> url option" where
  "urlsplit u0 =
     (let u1 = filter (\<lambda>c. \<not> is_unsafe_url_byte c) (lstrip_by is_c0_or_space u0);
          sch = fst (split_scheme u1);
          nl = fst (split_netloc (snd (split_scheme u1)));
          u3 = snd (split_netloc (snd (split_scheme u1)));
          u4 = before_first (CHR ''#'') u3
      in if brackets_pair_up nl then
           Some \<lparr>scheme = sch, netloc = nl, path = before_first (CHR ''?'') u4,
                 params = [], query = after_first (CHR ''?'') u4,
                 fragment = after_first (CHR ''#'') u3\<rparr>
         else None)"

definition uses_params :: "string list" where
  "uses_params = ['''', ''ftp'', ''hdl'', ''prospero'', ''http'', ''imap'', ''https'',
                  ''shttp'', ''rtsp'', ''rtsps'', ''rtspu'', ''sip'', ''sips'', ''mms'',
                  ''sftp'', ''tel'']"

text \<open>\<open>_splitparams\<close>: the parameters start at the first semicolon after the last slash.\<close>

definition splitparams :: "string \<Rightarrow> string \<times> string" where
  "splitparams p =
     (if List.member p (CHR ''/'') then
        (let t = after_last (CHR ''/'') p;
             h = take (length p - length t) p
         in if List.member t (CHR '';'')
            then (h @ before_first (CHR '';'') t, after_first (CHR '';'') t)
            else (p, []))
      else (before_first (CHR '';'') p, after_first (CHR '';'') p))"

definition urlparse :: "string \<Rightarrow> url option" where
  "urlparse u =
     (case urlsplit u of
        None \<Rightarrow> None
      | Some r \<Rightarrow>
          (if List.member uses_params (scheme r) \<and> List.member (path r) (CHR '';'')
           then Some (r\<lparr>path := fst (splitparams (path r)),
                        params := snd (splitparams (path r))\<rparr>)
           else Some r))"

text \<open>The \<open>hostname\<close> attribute; \<open>None\<close> as in Python when there is no host.\<close>

definition hostname :: "url \<Rightarrow> string option" where
  "hostname r =
     (let hostinfo = after_last (CHR ''@'') (netloc r);
          h = (if List.member hostinfo (CHR ''['')
               then before_first (CHR '']'') (after_first (CHR ''['') hostinfo)
               else before_first (CHR '':'') hostinfo)
      in if h = [] then None
         else Some (lower (before_first (CHR ''%'') h)
                    @ dropWhile (\<lambda>c. c \<noteq> CHR ''%'') h))"

text \<open>
  \<open>urllib.parse.parse_qs\<close> with its default arguments: fields separated by \<open>&\<close>, a
  field without \<open>=\<close> or with an empty value is dropped, \<open>+\<close> stands for a space and
  \<open>%XX\<close> for the character of that code (an escape that is not two hexadecimal digits
  stays as it is).
\<close>

definition hex_digit :: "char \<Rightarrow> nat option" where
  "hex_digit c =
     map_of (zip ''0123456789abcdefABCDEF''
                 [0, 1, 2, 3, 4, 5, 6, 7, 8, 9, 10, 11, 12, 13, 14, 15, 10, 11, 12, 13, 14, 15]) c"

fun unquote :: "string \<Rightarrow> string" where
  "unquote [] = []"
| "unquote [c] = [c]"
| "unquote [c, d] = [c, d]"
| "unquote (c # a # b # r) =
     (if c = CHR ''%'' then
        (case hex_digit a of
           None \<Rightarrow> c # unquote (a # b # r)
         | Some x \<Rightarrow>
             (case hex_digit b of
                None \<Rightarrow> c # unquote (a # b # r)
              | Some y \<Rightarrow> char_of (16 * x + y) # unquote r))
      else c # unquote (a # b # r))"

definition plus_to_space :: "string \<Rightarrow> string" where
  "plus_to_space s = map (\<lambda>c. if c = CHR ''+'' then CHR '' '' else c) s"

definition qs_field :: "string \<Rightarrow> (string \<times> string) list" where
  "qs_field nv =
     (if List.member nv (CHR ''='') then
        (if after_first (CHR ''='') nv = [] then []
         else [(unquote (plus_to_space (before_first (CHR ''='') nv)),
                unquote (plus_to_space (after_first (CHR ''='') nv)))])
      else [])"

definition parse_qsl :: "string \<Rightarrow> (string \<times> string) list" where
  "parse_qsl qs = concat (map qs_field (split_on (CHR ''&'') qs))"

text \<open>\<open>parse_qs(qs).get(key)\<close> as the list of the key's values, empty when it has none.\<close>

definition parse_qs_get :: "string \<Rightarrow> string \<Rightarrow> string list" where
  "parse_qs_get qs key = map snd (filter (\<lambda>nv. fst nv = key) (parse_qsl qs))"

section \<open>Identity normalizer (\<open>pipeline.py\<close>)\<close>

definition YAHOO_HOST_SUFFIXES :: "string list" where
  "YAHOO_HOST_SUFFIXES = [''au.finance.yahoo.com'', ''finance.yahoo.com'']"

definition OUTPUT_DIR_PLACEHOLDERS :: "string list" where
  "OUTPUT_DIR_PLACEHOLDERS = [''/path/to/local/directory'', ''path/to/local/directory'']"

definition ASX_CODE_STOPWORDS :: "string list" where
  "ASX_CODE_STOPWORDS =
     [''A'', ''AN'', ''AND'', ''ASX'', ''AX'', ''ATTACH'', ''ATTACHED'', ''BODY'', ''CHART'',
      ''CHECK'', ''CODE'', ''COMPANY'', ''CREATE'', ''DAILY'', ''EMAIL'', ''FOR'', ''FINANCE'',
      ''GENERATE'', ''GRAPH'', ''IS'', ''MAIL'', ''OF'', ''PLEASE'', ''QUOTE'', ''REPORT'',
      ''SEND'', ''STOCK'', ''SUBJECT'', ''THE'', ''THIS'', ''TO'', ''TODAY'', ''TODAYS'',
      ''WITH'', ''YOUR'', ''YAHOO'']"

definition is_stopword :: "string \<Rightarrow> bool" where
  "is_stopword code = List.member ASX_CODE_STOPWORDS code"

text \<open>The first result that a list of attempts gives, in order: a loop that returns
  from its body.\<close>

fun first_some :: "('a \<Rightarrow> 'b option) \<Rightarrow> 'a list \<Rightarrow> 'b option" where
  "first_some f [] = None"
| "first_some f (x # xs) = (case f x of Some y \<Rightarrow> Some y | None \<Rightarrow> first_some f xs)"

text \<open>\<open>re.fullmatch(r"([A-Z0-9]{1,6})\.AX", upper)\<close>, giving group 1.\<close>

definition dot_ax_match :: "string \<Rightarrow> string option" where
  "dot_ax_match up =
     (let g = take (length up - 3) up
      in if endswith up ''.AX'' \<and> 1 \<le> length g \<and> length g \<le> 6 \<and> list_all is_AZ09 g
         then Some g else None)"

text \<open>\<open>re.fullmatch(r"[A-Z0-9]{2,6}", upper)\<close>.\<close>

definition clean_match :: "string \<Rightarrow> bool" where
  "clean_match up = (2 \<le> length up \<and> length up \<le> 6 \<and> list_all is_AZ09 up)"

text \<open>
  The test both loops of the URL branch make on a cleaned path segment or query value:
  \<open>cleaned.endswith(".AX")\<close>, and \<open>cleaned[:-3]\<close> has 1 to 6 characters, is not a
  number and is not a stopword.
\<close>

definition ax_code :: "string \<Rightarrow> string option" where
  "ax_code cleaned =
     (let code = take (length cleaned - 3) cleaned
      in if endswith cleaned ''.AX'' \<and> 1 \<le> length code \<and> length code \<le> 6
            \<and> \<not> isdigit code \<and> \<not> is_stopword code
         then Some code else None)"

definition is_url_punct :: "char \<Rightarrow> bool" where
  "is_url_punct c = List.member [CHR ''.'', CHR '','', CHR '';'', CHR '':'', CHR ''!'',
                                 CHR ''?'', CHR 0x22, CHR 0x27] c"

text \<open>\<open>(query.get(key) or [""])[0]\<close>.\<close>

definition query_value :: "string \<Rightarrow> string \<Rightarrow> string" where
  "query_value qs key = (case parse_qs_get qs key of [] \<Rightarrow> [] | v # _ \<Rightarrow> v)"

text \<open>The body of \<open>if url_match:\<close>; a \<open>ValueError\<close> of \<open>urlparse\<close> is swallowed.\<close>

definition code_from_url :: "string \<Rightarrow> string option" where
  "code_from_url m =
     (case urlparse (strip_by is_url_punct m) of
        None \<Rightarrow> None
      | Some parsed \<Rightarrow>
          (case first_some (\<lambda>part. ax_code (filter is_AZ09dot (upper part)))
                  (filter (\<lambda>part. part \<noteq> []) (split_on (CHR ''/'') (path parsed))) of
             Some code \<Rightarrow> Some code
           | None \<Rightarrow>
               first_some
                 (\<lambda>key. ax_code (filter is_AZ09dot (upper (query_value (query parsed) key))))
                 [''p'', ''symbol'']))"

text \<open>The four marker patterns, in the order of the source, and the test on a match.\<close>

definition marker_patterns :: "(string \<Rightarrow> string option) list" where
  "marker_patterns =
     [asx_colon_at, keyword_space_at ''ASX'', keyword_space_at ''FOR'', label_at]"

definition marker_code :: "string option \<Rightarrow> string option" where
  "marker_code m =
     (case m of
        None \<Rightarrow> None
      | Some g \<Rightarrow>
          (let code = filter is_AZ09 g
           in if 2 \<le> length code \<and> length code \<le> 6 \<and> \<not> isdigit code \<and> \<not> is_stopword code
              then Some code else None))"

definition code_from_text :: "string \<Rightarrow> string option" where
  "code_from_text cleaned_text =
     (case first_some (\<lambda>m_at. marker_code (search_b m_at None cleaned_text)) marker_patterns of
        Some code \<Rightarrow> Some code
      | None \<Rightarrow>
          List.find (\<lambda>token. \<not> is_stopword token \<and> \<not> isdigit token)
            (findall_tokens None cleaned_text))"

definition normalize_asx_code :: "string option \<Rightarrow> string option" where
  "normalize_asx_code asx_code =
     (case asx_code of
        None \<Rightarrow> None
      | Some a \<Rightarrow>
          (let raw = strip a; up = upper raw
           in if raw = [] then None
              else (case (case dot_ax_match up of
                            None \<Rightarrow> None
                          | Some g \<Rightarrow> if isdigit g then None else Some g) of
                      Some g \<Rightarrow> Some g
                    | None \<Rightarrow>
                        (if clean_match up \<and> \<not> isdigit up then Some up
                         else (case (case url_search True raw of
                                       None \<Rightarrow> None
                                     | Some m \<Rightarrow> code_from_url m) of
                                 Some code \<Rightarrow> Some code
                               | None \<Rightarrow> code_from_text (sub_emails (sub_urls up)))))))"

definition build_asx_url :: "string option \<Rightarrow> string" where
  "build_asx_url asx_code =
     (let code = replace ''.AX'' []
                   (upper (case asx_code of
                             None \<Rightarrow> ''HUB''
                           | Some a \<Rightarrow> if a = [] then ''HUB'' else a))
      in ''https://au.finance.yahoo.com/quote/'' @ code @ ''.AX/'')"

text \<open>\<open>_hostname\<close> and \<open>_is_asx_url\<close>; the exception handlers give the empty host and
  \<open>False\<close>.\<close>

definition hostname_of :: "string \<Rightarrow> string" where
  "hostname_of u =
     (case urlparse u of
        None \<Rightarrow> []
      | Some r \<Rightarrow> (case hostname r of None \<Rightarrow> [] | Some h \<Rightarrow> lower h))"

definition is_asx_url :: "string \<Rightarrow> bool" where
  "is_asx_url u =
     (let host = hostname_of u
      in if list_ex (\<lambda>suffix. if host = suffix then True
                              else endswith host (''.'' @ suffix)) YAHOO_HOST_SUFFIXES
         then (case urlparse u of
                 None \<Rightarrow> False
               | Some r \<Rightarrow> contains (lower (path r)) ''/quote/'')
         else False)"

text \<open>
  Two shapes of a code. Every code the normalizer returns has 1 to 6 characters of
  \<open>[A-Z0-9.]\<close> and is not a number; a clean code has 2 to 6 characters of
  \<open>[A-Z0-9]\<close> and is not a number.
\<close>

definition code_shape :: "string \<Rightarrow> bool" where
  "code_shape c = (1 \<le> length c \<and> length c \<le> 6 \<and> list_all is_AZ09dot c \<and> \<not> isdigit c)"

definition clean_shape :: "string \<Rightarrow> bool" where
  "clean_shape c = (2 \<le> length c \<and> length c \<le> 6 \<and> list_all is_AZ09 c \<and> \<not> isdigit c)"


section \<open>Request coordinator (\<open>server.py\<close>)\<close>

text \<open>
  A result payload is a \<open>dict[str, str]\<close>. An exception is known to the coordinator by
  its text only; \<open>AsxReportError\<close> is the one the repository raises itself.
\<close>

type_synonym payload = "string \<rightharpoonup> string"

datatype exn = AsxReportError string | OtherError string

fun str_exn :: "exn \<Rightarrow> string" where
  "str_exn (AsxReportError m) = m"
| "str_exn (OtherError m) = m"

text \<open>\<open>str(n)\<close> for an integer.\<close>

definition digit_char :: "nat \<Rightarrow> char" where
  "digit_char d = digits ! d"

fun str_nat :: "nat \<Rightarrow> string" where
  "str_nat n = (if n < 10 then [digit_char n] else str_nat (n div 10) @ [digit_char (n mod 10)])"

declare str_nat.simps [simp del]

definition str_int :: "int \<Rightarrow> string" where
  "str_int i = (if i < 0 then CHR ''-'' # str_nat (nat (- i)) else str_nat (nat i))"

text \<open>The arguments of the tool \<open>create_asx_report\<close>.\<close>

record request =
  req_asx_code :: string
  req_recipient :: string
  req_output_dir :: string
  req_email_subject :: string
  req_email_body :: string
  req_send_email :: bool

definition canonical_ticker :: "string \<Rightarrow> string" where
  "canonical_ticker code = (case normalize_asx_code (Some code) of None \<Rightarrow> ''HUB'' | Some c \<Rightarrow> c)"

definition canonical_recipient :: "string \<Rightarrow> string" where
  "canonical_recipient rcpt =
     (let v = lower (strip rcpt) in if v = [] then ''test@gmail.com'' else v)"

definition request_key :: "string \<Rightarrow> string \<Rightarrow> bool \<Rightarrow> string" where
  "request_key code rcpt send =
     join ''|'' [canonical_ticker code, canonical_recipient rcpt,
                 if send then ''true'' else ''false'']"

text \<open>
  The two windows are read from the environment on every call. The argument is what
  \<open>int(raw)\<close> gives for the variable (for the default text when it is unset), \<open>None\<close>
  when it raises \<open>ValueError\<close>.
\<close>

record environ =
  MCP_DEDUPE_SECONDS :: "int option"
  MCP_ERROR_DEDUPE_SECONDS :: "int option"

definition dedupe_window_seconds :: "environ \<Rightarrow> int" where
  "dedupe_window_seconds env =
     (case MCP_DEDUPE_SECONDS env of Some n \<Rightarrow> max 0 n | None \<Rightarrow> 90)"

definition error_dedupe_window_seconds :: "environ \<Rightarrow> int" where
  "error_dedupe_window_seconds env =
     (case MCP_ERROR_DEDUPE_SECONDS env of Some n \<Rightarrow> max 0 n | None \<Rightarrow> 25)"

text \<open>
  The shared state of the module: the two caches, the in-flight map, and the tasks
  created so far. A task is known by its position in that list (its handle); each task
  runs the report pipeline once, with the arguments recorded. Readings of
  \<open>time.monotonic()\<close> are real numbers.
\<close>

record coordinator =
  RECENT_RESULTS :: "string \<rightharpoonup> real \<times> payload"
  RECENT_ERRORS :: "string \<rightharpoonup> real \<times> string"
  IN_FLIGHT :: "string \<rightharpoonup> nat"
  tasks :: "request list"

definition prune_entries :: "real \<Rightarrow> int \<Rightarrow> (string \<rightharpoonup> real \<times> 'v) \<Rightarrow> (string \<rightharpoonup> real \<times> 'v)" where
  "prune_entries now window cache =
     (if 0 < window then
        (\<lambda>key. case cache key of
                  None \<Rightarrow> None
                | Some (ts, v) \<Rightarrow> if now - ts > real_of_int (window * 2) then None
                                 else Some (ts, v))
      else Map.empty)"

definition prune_cache :: "real \<Rightarrow> int \<Rightarrow> int \<Rightarrow> coordinator \<Rightarrow> coordinator" where
  "prune_cache now success_window error_window st =
     st\<lparr>RECENT_RESULTS := prune_entries now success_window (RECENT_RESULTS st),
        RECENT_ERRORS := prune_entries now error_window (RECENT_ERRORS st)\<rparr>"

text \<open>
  The test both caches are read with, \<open>window > 0 and cached and now - cached[0] <= window\<close>,
  giving the cached value when it holds.
\<close>

definition fresh_entry :: "real \<Rightarrow> int \<Rightarrow> (real \<times> 'v) option \<Rightarrow> 'v option" where
  "fresh_entry now window cached =
     (case cached of
        None \<Rightarrow> None
      | Some (ts, v) \<Rightarrow> if 0 < window \<and> now - ts \<le> real_of_int window then Some v else None)"

text \<open>The dedup annotation merged into a result.\<close>

definition annotate :: "payload \<Rightarrow> string \<Rightarrow> string \<Rightarrow> int \<Rightarrow> payload" where
  "annotate result deduplicated reason window =
     result(''deduplicated'' \<mapsto> deduplicated, ''dedupe_reason'' \<mapsto> reason,
            ''dedupe_window_seconds'' \<mapsto> str_int window)"

text \<open>
  \<open>create_asx_report\<close> runs in two stretches, each without a suspension point (the lock
  is never held across an \<open>await\<close>, so taking it does not suspend): from the call to
  \<open>await task\<close>, and from the completion of the task to the return. The first
  stretch ends with a result, an exception, or a caller waiting for a task; \<open>Awaits\<close>
  carries what the second stretch needs: the key, the success window, the task and
  \<open>owns_task\<close>.
\<close>

datatype admission =
    Returned payload
  | Raised exn
  | Awaits string int nat bool

definition create_asx_report_admit ::
    "environ \<Rightarrow> real \<Rightarrow> request \<Rightarrow> coordinator \<Rightarrow> admission \<times> coordinator" where
  "create_asx_report_admit env now req st0 =
     (let key = request_key (req_asx_code req) (req_recipient req) (req_send_email req);
          success_window = dedupe_window_seconds env;
          error_window = error_dedupe_window_seconds env;
          st = prune_cache now success_window error_window st0
      in case fresh_entry now success_window (RECENT_RESULTS st key) of
           Some result \<Rightarrow>
             (Returned (annotate result ''true'' ''recent-cache'' success_window), st)
         | None \<Rightarrow>
             (case fresh_entry now error_window (RECENT_ERRORS st key) of
                Some detail \<Rightarrow>
                  (Raised (AsxReportError
                     (''Skipped duplicate retry after recent failure: '' @ detail)), st)
              | None \<Rightarrow>
                  (case IN_FLIGHT st key of
                     Some task \<Rightarrow> (Awaits key success_window task False, st)
                   | None \<Rightarrow>
                       (Awaits key success_window (length (tasks st)) True,
                        st\<lparr>IN_FLIGHT := (IN_FLIGHT st)(key \<mapsto> length (tasks st)),
                           tasks := tasks st @ [req]\<rparr>))))"

text \<open>
  The second stretch, for a caller that waited: \<open>outcome\<close> is how the task ended (the
  exception or the result of the pipeline run) and \<open>now\<close> the clock when the owner
  records it.
\<close>

definition create_asx_report_settle ::
    "real \<Rightarrow> string \<Rightarrow> int \<Rightarrow> bool \<Rightarrow> exn + payload \<Rightarrow> coordinator
       \<Rightarrow> (exn + payload) \<times> coordinator" where
  "create_asx_report_settle now key success_window owns_task outcome st =
     (case outcome of
        Inl exc \<Rightarrow>
          (Inl (AsxReportError (''Failed to create Yahoo chart report: '' @ str_exn exc)),
           if owns_task
           then st\<lparr>IN_FLIGHT := (IN_FLIGHT st)(key := None),
                   RECENT_ERRORS := (RECENT_ERRORS st)(key \<mapsto> (now, str_exn exc))\<rparr>
           else st)
      | Inr result \<Rightarrow>
          (if owns_task
           then (Inr (annotate result ''false'' ''none'' success_window),
                 st\<lparr>IN_FLIGHT := (IN_FLIGHT st)(key := None),
                    RECENT_ERRORS := (RECENT_ERRORS st)(key := None),
                    RECENT_RESULTS := (RECENT_RESULTS st)(key \<mapsto> (now, result))\<rparr>)
           else (Inr (annotate result ''true'' ''in-flight'' success_window), st)))"

text \<open>The empty module state, as after import.\<close>

definition initial_coordinator :: coordinator where
  "initial_coordinator =
     \<lparr>RECENT_RESULTS = Map.empty, RECENT_ERRORS = Map.empty, IN_FLIGHT = Map.empty, tasks = []\<rparr>"

text \<open>Sample values: a request for BHP, the default environment and a result payload.\<close>

definition bhp_request :: request where
  "bhp_request =
     \<lparr>req_asx_code = ''BHP'', req_recipient = ''a@b.c'', req_output_dir = ''output'',
      req_email_subject = [], req_email_body = [], req_send_email = True\<rparr>"

definition default_environ :: environ where
  "default_environ = \<lparr>MCP_DEDUPE_SECONDS = Some 90, MCP_ERROR_DEDUPE_SECONDS = Some 25\<rparr>"

definition bhp_payload :: payload where
  "bhp_payload =
     [''image_path'' \<mapsto> ''/out/asx-BHP.png'', ''docx_path'' \<mapsto> ''/out/asx-BHP.docx'',
      ''pdf_path'' \<mapsto> ''/out/asx-BHP.pdf'']"

section \<open>The world outside the pipeline\<close>

text \<open>
  Everything the pipeline asks of the operating system and of its collaborators is a
  field of one record, over a type \<open>'w\<close> of world states that is left open: the path
  algebra of \<open>pathlib\<close>, the reads of the file system and the environment, and the
  calls that change the world (file operations, external processes, the browser
  capture, the document writer, \<open>docx2pdf\<close>). A call that can raise yields
  \<open>Some\<close> exception or \<open>None\<close>, and the world after it. Paths are the strings
  \<open>str(path)\<close> gives. \<open>subprocess_run\<close> is \<open>subprocess.run(cmd, check=True)\<close> with
  the timeout given, \<open>int_of_str\<close> is \<open>int(raw)\<close> (\<open>None\<close> for \<open>ValueError\<close>) and
  \<open>strftime_now\<close> formats the current time.
\<close>

record 'w system =
  path_join :: "string \<Rightarrow> string \<Rightarrow> string"
  path_parent :: "string \<Rightarrow> string"
  path_name :: "string \<Rightarrow> string"
  path_stem :: "string \<Rightarrow> string"
  path_with_suffix :: "string \<Rightarrow> string \<Rightarrow> string"
  path_expanduser :: "string \<Rightarrow> string"
  path_home :: string
  int_of_str :: "string \<Rightarrow> int option"
  path_resolve :: "string \<Rightarrow> 'w \<Rightarrow> string"
  path_exists :: "string \<Rightarrow> 'w \<Rightarrow> bool"
  path_st_size :: "string \<Rightarrow> 'w \<Rightarrow> exn + int"
  os_access_x :: "string \<Rightarrow> 'w \<Rightarrow> bool"
  os_getenv :: "string \<Rightarrow> 'w \<Rightarrow> string option"
  shutil_which :: "string \<Rightarrow> 'w \<Rightarrow> string option"
  strftime_now :: "string \<Rightarrow> 'w \<Rightarrow> string"
  path_mkdir :: "string \<Rightarrow> 'w \<Rightarrow> exn option \<times> 'w"
  path_write_text :: "string \<Rightarrow> string \<Rightarrow> 'w \<Rightarrow> exn option \<times> 'w"
  path_unlink :: "string \<Rightarrow> 'w \<Rightarrow> exn option \<times> 'w"
  shutil_move :: "string \<Rightarrow> string \<Rightarrow> 'w \<Rightarrow> exn option \<times> 'w"
  shutil_copy2 :: "string \<Rightarrow> string \<Rightarrow> 'w \<Rightarrow> exn option \<times> 'w"
  subprocess_run :: "string list \<Rightarrow> int option \<Rightarrow> 'w \<Rightarrow> exn option \<times> 'w"
  docx2pdf_convert :: "string \<Rightarrow> string option \<Rightarrow> 'w \<Rightarrow> exn option \<times> 'w"
  playwright_capture :: "string \<Rightarrow> string \<Rightarrow> 'w \<Rightarrow> (exn + payload) \<times> 'w"
  docx_create_word_report :: "string \<Rightarrow> string \<Rightarrow> string \<Rightarrow> string \<Rightarrow> 'w \<Rightarrow> exn option \<times> 'w"

section \<open>Output location resolver (\<open>pipeline.py\<close>)\<close>

definition is_placeholder_output_dir :: "string \<Rightarrow> bool" where
  "is_placeholder_output_dir output_dir =
     List.member OUTPUT_DIR_PLACEHOLDERS
       (lower (rstrip_by (\<lambda>c. c = CHR ''/'')
          (map (\<lambda>c. if c = CHR 0x5C then CHR ''/'' else c) (strip output_dir))))"

text \<open>\<open>_can_write_directory\<close>: any exception of the three steps gives \<open>False\<close>.\<close>

definition can_write_directory :: "'w system \<Rightarrow> string \<Rightarrow> 'w \<Rightarrow> bool \<times> 'w" where
  "can_write_directory sys candidate w0 =
     (case path_mkdir sys candidate w0 of
        (Some e, w1) \<Rightarrow> (False, w1)
      | (None, w1) \<Rightarrow>
          (case path_write_text sys (path_join sys candidate ''.asx-write-probe'') ''ok'' w1 of
             (Some e, w2) \<Rightarrow> (False, w2)
           | (None, w2) \<Rightarrow>
               (case path_unlink sys (path_join sys candidate ''.asx-write-probe'') w2 of
                  (Some e, w3) \<Rightarrow> (False, w3)
                | (None, w3) \<Rightarrow> (True, w3))))"

text \<open>The candidate list, in the order the source appends to it.\<close>

definition output_dir_candidates :: "'w system \<Rightarrow> string \<Rightarrow> string list" where
  "output_dir_candidates sys output_dir =
     (let requested_raw = strip output_dir;
          requested = path_expanduser sys (if requested_raw = [] then ''output'' else requested_raw)
      in (if requested_raw = [] then []
          else if is_placeholder_output_dir requested then [] else [requested])
         @ [''output'',
            path_join sys (path_join sys (path_home sys) ''Desktop'') ''asx-mcp-output'',
            path_join sys ''/tmp'' ''asx-mcp-output''])"

text \<open>The loop over \<open>candidates\<close> with the set \<open>seen\<close> of resolved forms.\<close>

fun unique_by :: "('a \<Rightarrow> 'k) \<Rightarrow> 'k list \<Rightarrow> 'a list \<Rightarrow> 'a list" where
  "unique_by key seen [] = []"
| "unique_by key seen (c # cs) =
     (if List.member seen (key c) then unique_by key seen cs
      else c # unique_by key (key c # seen) cs)"

definition unique_candidates :: "'w system \<Rightarrow> string \<Rightarrow> 'w \<Rightarrow> string list" where
  "unique_candidates sys output_dir w =
     unique_by (\<lambda>c. path_resolve sys c w) [] (output_dir_candidates sys output_dir)"

text \<open>The loop that returns the first candidate whose probe succeeds.\<close>

fun first_writable :: "'w system \<Rightarrow> string list \<Rightarrow> 'w \<Rightarrow> string option \<times> 'w" where
  "first_writable sys [] w = (None, w)"
| "first_writable sys (c # cs) w =
     (if fst (can_write_directory sys c w) then (Some c, snd (can_write_directory sys c w))
      else first_writable sys cs (snd (can_write_directory sys c w)))"

definition resolve_output_dir :: "'w system \<Rightarrow> string \<Rightarrow> 'w \<Rightarrow> (exn + string) \<times> 'w" where
  "resolve_output_dir sys output_dir w =
     (case first_writable sys (unique_candidates sys output_dir w) w of
        (Some candidate, w') \<Rightarrow> (Inr candidate, w')
      | (None, w') \<Rightarrow>
          (Inl (AsxReportError
             (''No writable output directory available. Tried: ''
              @ join '', '' (unique_candidates sys output_dir w))), w'))"


section \<open>A simulated world\<close>

text \<open>
  One instance of the interface, for running the pipeline on concrete inputs: files
  with their sizes, directories that refuse writes, and a log of the calls made to
  external programs. Paths are POSIX paths, relative ones taken from \<open>/cwd\<close>.
  The external programs of this instance return normally and write nothing.
\<close>

record sim_world =
  sim_files :: "string \<rightharpoonup> int"
  sim_readonly :: "string list"
  sim_log :: "string list"

definition sim_abs :: "string \<Rightarrow> string" where
  "sim_abs p = (if startswith p ''/'' then p else ''/cwd/'' @ p)"

definition sim_denied :: "string \<Rightarrow> sim_world \<Rightarrow> bool" where
  "sim_denied p w = list_ex (\<lambda>d. startswith (sim_abs p) (sim_abs d)) (sim_readonly w)"

definition sim_put :: "string \<Rightarrow> int \<Rightarrow> sim_world \<Rightarrow> exn option \<times> sim_world" where
  "sim_put p n w =
     (if sim_denied p w then (Some (OtherError ''Permission denied''), w)
      else (None, w\<lparr>sim_files := (sim_files w)(sim_abs p \<mapsto> n)\<rparr>))"

definition sim_system :: "sim_world system" where
  "sim_system =
     \<lparr>path_join = (\<lambda>a b. a @ ''/'' @ b),
      path_parent = (\<lambda>p. rstrip_by (\<lambda>c. c = CHR ''/'')
                           (take (length p - length (after_last (CHR ''/'') p)) p)),
      path_name = after_last (CHR ''/''),
      path_stem = (\<lambda>p. before_first (CHR ''.'') (after_last (CHR ''/'') p)),
      path_with_suffix = (\<lambda>p s. before_first (CHR ''.'') p @ s),
      path_expanduser = (\<lambda>p. p),
      path_home = ''/home/u'',
      int_of_str = (\<lambda>s. None),
      path_resolve = (\<lambda>p w. sim_abs p),
      path_exists = (\<lambda>p w. case sim_files w (sim_abs p) of None \<Rightarrow> False | Some n \<Rightarrow> True),
      path_st_size = (\<lambda>p w. case sim_files w (sim_abs p) of
                               None \<Rightarrow> Inl (OtherError ''No such file'')
                             | Some n \<Rightarrow> Inr n),
      os_access_x = (\<lambda>p w. False),
      os_getenv = (\<lambda>name w. None),
      shutil_which = (\<lambda>name w. None),
      strftime_now = (\<lambda>fmt w. ''20240101-000000''),
      path_mkdir = (\<lambda>p w. if sim_denied p w then (Some (OtherError ''Permission denied''), w)
                           else (None, w)),
      path_write_text = (\<lambda>p t w. sim_put p (int (length t)) w),
      path_unlink = (\<lambda>p w. (None, w\<lparr>sim_files := (sim_files w)(sim_abs p := None)\<rparr>)),
      shutil_move = (\<lambda>a b w. case sim_files w (sim_abs a) of
                                None \<Rightarrow> (Some (OtherError ''No such file''), w)
                              | Some n \<Rightarrow>
                                  sim_put b n (w\<lparr>sim_files := (sim_files w)(sim_abs a := None)\<rparr>)),
      shutil_copy2 = (\<lambda>a b w. case sim_files w (sim_abs a) of
                                None \<Rightarrow> (Some (OtherError ''No such file''), w)
                              | Some n \<Rightarrow> sim_put b n w),
      subprocess_run = (\<lambda>cmd timeout w. (None, w\<lparr>sim_log := sim_log w @ take 1 cmd\<rparr>)),
      docx2pdf_convert = (\<lambda>a b w. (None, w\<lparr>sim_log := sim_log w @ [''docx2pdf'']\<rparr>)),
      playwright_capture = (\<lambda>u img w.
         (Inr [''final_url'' \<mapsto> u, ''capture_selector'' \<mapsto> ''.highcharts-container''],
          w\<lparr>sim_files := (sim_files w)(sim_abs img \<mapsto> 9000)\<rparr>)),
      docx_create_word_report = (\<lambda>title u img docx w. sim_put docx 5000 w)\<rparr>"

definition sim_initial :: sim_world where
  "sim_initial = \<lparr>sim_files = Map.empty, sim_readonly = [], sim_log = []\<rparr>"

section \<open>Fallback conversion pipeline (\<open>pipeline.py\<close>)\<close>

definition safe_int_env :: "'w system \<Rightarrow> string \<Rightarrow> int \<Rightarrow> int \<Rightarrow> 'w \<Rightarrow> int" where
  "safe_int_env sys name dflt minimum w =
     (case int_of_str sys
             (strip (case os_getenv sys name w of None \<Rightarrow> str_int dflt | Some v \<Rightarrow> v)) of
        Some n \<Rightarrow> max minimum n
      | None \<Rightarrow> max minimum dflt)"

definition resolve_libreoffice_binary :: "'w system \<Rightarrow> 'w \<Rightarrow> string option" where
  "resolve_libreoffice_binary sys w =
     (case first_some
             (\<lambda>command. case shutil_which sys command w of
                           None \<Rightarrow> None
                         | Some resolved \<Rightarrow> if resolved = [] then None else Some resolved)
             [''soffice'', ''libreoffice''] of
        Some resolved \<Rightarrow> Some resolved
      | None \<Rightarrow>
          first_some
            (\<lambda>candidate. if path_exists sys candidate w \<and> os_access_x sys candidate w
                          then Some candidate else None)
            [''/Applications/LibreOffice.app/Contents/MacOS/soffice'',
             path_join sys (path_join sys (path_join sys (path_join sys
               (path_join sys (path_home sys) ''Applications'') ''LibreOffice.app'')
               ''Contents'') ''MacOS'') ''soffice''])"

text \<open>
  \<open>_convert_docx_to_pdf_with_libreoffice\<close>: the error message, or \<open>None\<close> when the PDF
  is in place.
\<close>

definition convert_docx_to_pdf_with_libreoffice ::
    "'w system \<Rightarrow> string \<Rightarrow> string \<Rightarrow> int \<Rightarrow> 'w \<Rightarrow> string option \<times> 'w" where
  "convert_docx_to_pdf_with_libreoffice sys input_docx output_pdf timeout_seconds w =
     (case resolve_libreoffice_binary sys w of
        None \<Rightarrow> (Some ''LibreOffice binary not found'', w)
      | Some binary \<Rightarrow>
          (let generated_pdf =
                 path_join sys (path_parent sys output_pdf) (path_stem sys input_docx @ ''.pdf'');
               cmd = [binary, ''--headless'', ''--nologo'', ''--nofirststartwizard'',
                      ''--convert-to'', ''pdf'', ''--outdir'', path_parent sys output_pdf,
                      input_docx]
           in case subprocess_run sys cmd (Some timeout_seconds) w of
                (Some exc, w1) \<Rightarrow> (Some (''LibreOffice convert failed: '' @ str_exn exc), w1)
              | (None, w1) \<Rightarrow>
                  (if path_exists sys generated_pdf w1 then
                     (case path_st_size sys generated_pdf w1 of
                        Inl exc \<Rightarrow>
                          (Some (''LibreOffice output check failed: '' @ str_exn exc), w1)
                      | Inr sz \<Rightarrow>
                          (if sz \<le> 0
                           then (Some (''LibreOffice output is empty: '' @ generated_pdf), w1)
                           else if path_resolve sys generated_pdf w1 = path_resolve sys output_pdf w1
                           then (None, w1)
                           else (case shutil_move sys generated_pdf output_pdf w1 of
                                   (Some exc, w2) \<Rightarrow>
                                     (Some (''LibreOffice output move failed: '' @ str_exn exc), w2)
                                 | (None, w2) \<Rightarrow> (None, w2))))
                   else (Some (''LibreOffice did not output: '' @ generated_pdf), w1))))"

text \<open>The local function \<open>output_ready\<close>.\<close>

definition output_ready :: "'w system \<Rightarrow> string \<Rightarrow> 'w \<Rightarrow> bool" where
  "output_ready sys output_pdf w =
     (if path_exists sys output_pdf w
      then (case path_st_size sys output_pdf w of Inl exc \<Rightarrow> False | Inr sz \<Rightarrow> 0 < sz)
      else False)"

definition pdf_engine_of :: "'w system \<Rightarrow> 'w \<Rightarrow> string" where
  "pdf_engine_of sys w =
     (let e = lower (strip (case os_getenv sys ''ASX_PDF_ENGINE'' w of
                              None \<Rightarrow> ''auto'' | Some v \<Rightarrow> v))
      in if e = [] then ''auto'' else e)"

definition allow_libreoffice :: "string \<Rightarrow> bool" where
  "allow_libreoffice pdf_engine = List.member [''auto'', ''libreoffice'', ''soffice''] pdf_engine"

definition allow_docx2pdf :: "string \<Rightarrow> bool" where
  "allow_docx2pdf pdf_engine =
     List.member [''auto'', ''docx2pdf'', ''word'', ''microsoft-word''] pdf_engine"

text \<open>
  The block \<open>if allow_libreoffice:\<close>. The result says whether the function returns
  there, and gives the list \<open>errors\<close> and the world after the block.
\<close>

definition libreoffice_stage ::
    "'w system \<Rightarrow> string \<Rightarrow> string \<Rightarrow> string \<Rightarrow> int \<Rightarrow> 'w \<Rightarrow> bool \<times> string list \<times> 'w" where
  "libreoffice_stage sys pdf_engine input_docx output_pdf timeout_seconds w =
     (if allow_libreoffice pdf_engine then
        (case convert_docx_to_pdf_with_libreoffice sys input_docx output_pdf timeout_seconds w of
           (None, w1) \<Rightarrow> (output_ready sys output_pdf w1, [], w1)
         | (Some libreoffice_error, w1) \<Rightarrow>
             (if libreoffice_error = [] then (output_ready sys output_pdf w1, [], w1)
              else (False, [libreoffice_error], w1)))
      else (False, [], w))"

text \<open>Attempt 1: direct convert to the requested output path.\<close>

definition docx2pdf_direct ::
    "'w system \<Rightarrow> string \<Rightarrow> string \<Rightarrow> string list \<Rightarrow> 'w \<Rightarrow> string list \<times> 'w" where
  "docx2pdf_direct sys input_docx output_pdf errors w =
     (case docx2pdf_convert sys input_docx (Some output_pdf) w of
        (Some exc, w1) \<Rightarrow> (errors @ [''docx2pdf direct convert failed: '' @ str_exn exc], w1)
      | (None, w1) \<Rightarrow> (errors, w1))"

text \<open>
  Attempt 2: conversion beside the DOCX, then move. \<open>in_place_cleanup\<close> is the first
  \<open>try\<close>, whose exceptions are dropped.
\<close>

definition in_place_cleanup :: "'w system \<Rightarrow> string \<Rightarrow> string \<Rightarrow> 'w \<Rightarrow> 'w" where
  "in_place_cleanup sys input_docx output_pdf w =
     (let in_place_pdf = path_with_suffix sys input_docx ''.pdf''
      in if path_exists sys in_place_pdf w \<and> in_place_pdf \<noteq> output_pdf
         then snd (path_unlink sys in_place_pdf w) else w)"

definition docx2pdf_in_place ::
    "'w system \<Rightarrow> string \<Rightarrow> string \<Rightarrow> string list \<Rightarrow> 'w \<Rightarrow> string list \<times> 'w" where
  "docx2pdf_in_place sys input_docx output_pdf errors0 w0 =
     (let in_place_pdf = path_with_suffix sys input_docx ''.pdf'';
          r = docx2pdf_convert sys input_docx None (in_place_cleanup sys input_docx output_pdf w0);
          errors = (case fst r of
                      Some exc \<Rightarrow> errors0 @ [''docx2pdf in-place convert failed: '' @ str_exn exc]
                    | None \<Rightarrow> errors0);
          w = snd r
      in if path_exists sys in_place_pdf w then
           (case path_st_size sys in_place_pdf w of
              Inl exc \<Rightarrow> (errors @ [''move in-place pdf failed: '' @ str_exn exc], w)
            | Inr sz \<Rightarrow>
                (if 0 < sz \<and> in_place_pdf \<noteq> output_pdf then
                   (case shutil_move sys in_place_pdf output_pdf w of
                      (Some exc, w1) \<Rightarrow>
                        (errors @ [''move in-place pdf failed: '' @ str_exn exc], w1)
                    | (None, w1) \<Rightarrow> (errors, w1))
                 else (errors, w)))
         else (errors, w))"

text \<open>
  Attempt 3: conversion in a staging folder, then move. Creating the folder is outside
  every \<open>try\<close>: its exception leaves the function. The three \<open>try\<close> blocks that
  record their exception are \<open>staging_setup\<close>, the conversion and \<open>staging_move\<close>.
\<close>

definition staging_setup ::
    "'w system \<Rightarrow> string \<Rightarrow> string \<Rightarrow> string \<Rightarrow> string list \<Rightarrow> 'w \<Rightarrow> string list \<times> 'w" where
  "staging_setup sys input_docx staging_docx staging_pdf errors w =
     (case shutil_copy2 sys input_docx staging_docx w of
        (Some exc, w1) \<Rightarrow> (errors @ [''staging setup failed: '' @ str_exn exc], w1)
      | (None, w1) \<Rightarrow>
          (if path_exists sys staging_pdf w1 then
             (case path_unlink sys staging_pdf w1 of
                (Some exc, w2) \<Rightarrow> (errors @ [''staging setup failed: '' @ str_exn exc], w2)
              | (None, w2) \<Rightarrow> (errors, w2))
           else (errors, w1)))"

definition staging_move ::
    "'w system \<Rightarrow> string \<Rightarrow> string \<Rightarrow> string list \<Rightarrow> 'w \<Rightarrow> string list \<times> 'w" where
  "staging_move sys staging_pdf output_pdf errors w =
     (if path_exists sys staging_pdf w then
        (case path_st_size sys staging_pdf w of
           Inl exc \<Rightarrow> (errors @ [''staging move failed: '' @ str_exn exc], w)
         | Inr sz \<Rightarrow>
             (if 0 < sz then
                (case shutil_move sys staging_pdf output_pdf w of
                   (Some exc, w1) \<Rightarrow> (errors @ [''staging move failed: '' @ str_exn exc], w1)
                 | (None, w1) \<Rightarrow> (errors, w1))
              else (errors, w)))
      else (errors, w))"

definition docx2pdf_staging ::
    "'w system \<Rightarrow> string \<Rightarrow> string \<Rightarrow> string list \<Rightarrow> 'w \<Rightarrow> exn option \<times> string list \<times> 'w" where
  "docx2pdf_staging sys input_docx output_pdf errors0 w0 =
     (let staging_dir = path_join sys (path_parent sys output_pdf) ''.pdf-staging'';
          staging_docx = path_join sys staging_dir (path_name sys input_docx);
          staging_pdf = path_with_suffix sys staging_docx ''.pdf''
      in case path_mkdir sys staging_dir w0 of
           (Some exc, w1) \<Rightarrow> (Some exc, errors0, w1)
         | (None, w1) \<Rightarrow>
             (let s = staging_setup sys input_docx staging_docx staging_pdf errors0 w1;
                  r = docx2pdf_convert sys staging_docx None (snd s);
                  errors = (case fst r of
                              Some exc \<Rightarrow>
                                fst s @ [''docx2pdf staging convert failed: '' @ str_exn exc]
                            | None \<Rightarrow> fst s);
                  m = staging_move sys staging_pdf output_pdf errors (snd r)
              in (None, fst m,
                  if path_exists sys staging_docx (snd m)
                  then snd (path_unlink sys staging_docx (snd m)) else snd m)))"

text \<open>
  The body of \<open>convert_docx_to_pdf\<close> after the paths and the configuration are read.
  It ends by returning the output path, by raising the conversion failure (the text
  stands in for an empty \<open>errors\<close>), or by an exception that is not caught; the list
  is \<open>errors\<close> at that point.
\<close>

datatype conversion = Converted | Failed string | Crashed exn

definition convert_run ::
    "'w system \<Rightarrow> string \<Rightarrow> int \<Rightarrow> string \<Rightarrow> string \<Rightarrow> 'w \<Rightarrow> conversion \<times> string list \<times> 'w" where
  "convert_run sys pdf_engine timeout_seconds input_docx output_pdf w0 =
     (case libreoffice_stage sys pdf_engine input_docx output_pdf timeout_seconds w0 of
        (True, errors1, w1) \<Rightarrow> (Converted, errors1, w1)
      | (False, errors1, w1) \<Rightarrow>
          (if allow_docx2pdf pdf_engine then
             (case docx2pdf_direct sys input_docx output_pdf errors1 w1 of
                (errors2, w2) \<Rightarrow>
                  (if output_ready sys output_pdf w2 then (Converted, errors2, w2)
                   else (case docx2pdf_in_place sys input_docx output_pdf errors2 w2 of
                           (errors3, w3) \<Rightarrow>
                             (if output_ready sys output_pdf w3 then (Converted, errors3, w3)
                              else (case docx2pdf_staging sys input_docx output_pdf errors3 w3 of
                                      (Some exc, errors4, w4) \<Rightarrow> (Crashed exc, errors4, w4)
                                    | (None, errors4, w4) \<Rightarrow>
                                        (if output_ready sys output_pdf w4
                                         then (Converted, errors4, w4)
                                         else (Failed ''unknown error'', errors4, w4)))))))
           else (Failed (''unsupported ASX_PDF_ENGINE: '' @ pdf_engine), errors1, w1)))"

definition conversion_failure :: "string \<Rightarrow> string \<Rightarrow> string list \<Rightarrow> exn" where
  "conversion_failure input_docx fallback errors =
     AsxReportError (''PDF conversion failed for '' @ input_docx @ ''. Details: ''
                     @ (if errors = [] then fallback else join ''; '' errors))"

definition convert_docx_to_pdf ::
    "'w system \<Rightarrow> string \<Rightarrow> string \<Rightarrow> 'w \<Rightarrow> (exn + string) \<times> 'w" where
  "convert_docx_to_pdf sys input_docx0 output_pdf0 w0 =
     (case path_mkdir sys (path_parent sys output_pdf0) w0 of
        (Some exc, w) \<Rightarrow> (Inl exc, w)
      | (None, w) \<Rightarrow>
          (let input_docx = path_resolve sys input_docx0 w;
               output_pdf = path_resolve sys output_pdf0 w
           in case convert_run sys (pdf_engine_of sys w)
                     (safe_int_env sys ''ASX_LIBREOFFICE_TIMEOUT_SECONDS'' 120 30 w)
                     input_docx output_pdf w of
                (Converted, errors, w') \<Rightarrow> (Inr output_pdf, w')
              | (Failed fallback, errors, w') \<Rightarrow>
                  (Inl (conversion_failure input_docx fallback errors), w')
              | (Crashed exc, errors, w') \<Rightarrow> (Inl exc, w')))"

text \<open>
  Two variants of the simulated world. In the first \<open>docx2pdf\<close> writes a PDF of 7000
  bytes where it is asked to; in the second, moreover, LibreOffice is installed, exits
  normally and leaves an empty \<open>/cwd/out/r.pdf\<close>.
\<close>

definition sim_docx2pdf_writes :: "string \<Rightarrow> string option \<Rightarrow> sim_world \<Rightarrow> exn option \<times> sim_world" where
  "sim_docx2pdf_writes a b w =
     sim_put (case b of None \<Rightarrow> before_first (CHR ''.'') a @ ''.pdf'' | Some p \<Rightarrow> p) 7000
       (w\<lparr>sim_log := sim_log w @ [''docx2pdf'']\<rparr>)"

definition sim_word_system :: "sim_world system" where
  "sim_word_system = sim_system\<lparr>docx2pdf_convert := sim_docx2pdf_writes\<rparr>"



section \<open>Delivery and the report pipeline (\<open>pipeline.py\<close>)\<close>

text \<open>The AppleScript handed to \<open>osascript\<close>, after \<open>textwrap.dedent\<close> and \<open>strip\<close>.\<close>

definition mail_script :: string where
  "mail_script = join [CHR 0x0A]
     [''on run argv'',
      ''    set subjectText to item 1 of argv'',
      ''    set bodyText to item 2 of argv'',
      ''    set recipientAddress to item 3 of argv'',
      ''    set attachmentPath to item 4 of argv'',
      '''',
      ''    tell application '' @ [CHR 0x22] @ ''Mail'' @ [CHR 0x22],
      ''        set outgoingMessage to make new outgoing message with properties {subject:subjectText, content:bodyText & return & return, visible:false}'',
      '''',
      ''        tell outgoingMessage'',
      ''            make new to recipient at end of to recipients with properties {address:recipientAddress}'',
      ''            tell content'',
      ''                make new attachment with properties {file name:(POSIX file attachmentPath)} at after the last paragraph'',
      ''            end tell'',
      ''            send'',
      ''        end tell'',
      ''    end tell'',
      ''end run'']"

definition send_email_with_mail_app ::
    "'w system \<Rightarrow> string \<Rightarrow> string \<Rightarrow> string \<Rightarrow> string \<Rightarrow> 'w \<Rightarrow> exn option \<times> 'w" where
  "send_email_with_mail_app sys recipient subject body attachment_path w =
     (if path_exists sys attachment_path w then
        subprocess_run sys
          [''osascript'', ''-e'', mail_script, subject, body, recipient,
           path_resolve sys attachment_path w] None w
      else (Some (AsxReportError (''Attachment does not exist: '' @ attachment_path)), w))"

text \<open>\<open>x or "HUB"\<close> and \<open>x or default\<close> for an optional string.\<close>

definition or_else :: "string option \<Rightarrow> string \<Rightarrow> string" where
  "or_else x d = (case x of None \<Rightarrow> d | Some s \<Rightarrow> if s = [] then d else s)"

definition default_subject :: "string \<Rightarrow> string \<Rightarrow> string" where
  "default_subject slug generated_at =
     ''Yahoo Finance Chart Report: '' @ upper slug @ '' ('' @ generated_at @ '')''"

definition default_body :: "string option \<Rightarrow> string \<Rightarrow> string \<Rightarrow> string" where
  "default_body normalized_code source_url generated_at =
     ''Attached is your Yahoo Finance chart report PDF.'' @ [CHR 0x0A, CHR 0x0A]
     @ ''Ticker: '' @ upper (or_else normalized_code ''HUB'') @ ''.AX'' @ [CHR 0x0A]
     @ ''Source URL: '' @ source_url @ [CHR 0x0A]
     @ ''Generated: '' @ generated_at"

definition artifact_path :: "'w system \<Rightarrow> string \<Rightarrow> string \<Rightarrow> string \<Rightarrow> string \<Rightarrow> string" where
  "artifact_path sys dir slug timestamp ext =
     path_join sys dir (''asx-'' @ slug @ ''-'' @ timestamp @ ext)"

text \<open>
  The \<open>return\<close> of \<open>run_asx_report\<close>: a missing \<open>capture_selector\<close> is the \<open>KeyError\<close> of
  the subscript.
\<close>

definition report_result ::
    "'w system \<Rightarrow> string \<Rightarrow> string \<Rightarrow> payload \<Rightarrow> string \<Rightarrow> string \<Rightarrow> string \<Rightarrow> bool \<Rightarrow> 'w
       \<Rightarrow> exn + payload" where
  "report_result sys recipient source_url capture_result image_path docx_path pdf_path send_email w =
     (case capture_result ''capture_selector'' of
        None \<Rightarrow> Inl (OtherError ''capture_selector'')
      | Some selector \<Rightarrow>
          Inr [''recipient'' \<mapsto> recipient,
               ''source_url'' \<mapsto> source_url,
               ''final_url'' \<mapsto> (case capture_result ''final_url'' of
                                    None \<Rightarrow> source_url | Some u \<Rightarrow> u),
               ''image_path'' \<mapsto> path_resolve sys image_path w,
               ''docx_path'' \<mapsto> path_resolve sys docx_path w,
               ''pdf_path'' \<mapsto> path_resolve sys pdf_path w,
               ''capture_selector'' \<mapsto> selector,
               ''capture_attempt'' \<mapsto> (case capture_result ''capture_attempt'' of
                                          None \<Rightarrow> ''1'' | Some a \<Rightarrow> a),
               ''capture_refreshes'' \<mapsto> (case capture_result ''capture_refreshes'' of
                                            None \<Rightarrow> ''0'' | Some a \<Rightarrow> a),
               ''sent_email'' \<mapsto> (if send_email then ''true'' else ''false'')])"

text \<open>
  The steps after the capture: the subject and the body, the document, the conversion
  and the delivery. \<open>w2\<close> is the world after the capture.
\<close>

definition deliver_report ::
    "'w system \<Rightarrow> string option \<Rightarrow> string \<Rightarrow> string \<Rightarrow> string option \<Rightarrow> string option \<Rightarrow> bool
       \<Rightarrow> string \<Rightarrow> string \<Rightarrow> string \<Rightarrow> string \<Rightarrow> payload \<Rightarrow> 'w \<Rightarrow> (exn + payload) \<times> 'w" where
  "deliver_report sys normalized_code slug recipient email_subject email_body send_email
       source_url image_path docx_path pdf_path capture_result w2 =
     (let generated_at = strftime_now sys ''%Y-%m-%d %H:%M:%S'' w2;
          subject = or_else email_subject (default_subject slug generated_at);
          body = or_else email_body (default_body normalized_code source_url generated_at)
      in case docx_create_word_report sys subject source_url image_path docx_path w2 of
           (Some exc, w3) \<Rightarrow> (Inl exc, w3)
         | (None, w3) \<Rightarrow>
             (case convert_docx_to_pdf sys docx_path pdf_path w3 of
                (Inl exc, w4) \<Rightarrow> (Inl exc, w4)
              | (Inr converted, w4) \<Rightarrow>
                  (if send_email then
                     (case send_email_with_mail_app sys recipient subject body pdf_path w4 of
                        (Some exc, w5) \<Rightarrow> (Inl exc, w5)
                      | (None, w5) \<Rightarrow>
                          (report_result sys recipient source_url capture_result image_path
                             docx_path pdf_path send_email w5, w5))
                   else (report_result sys recipient source_url capture_result image_path
                           docx_path pdf_path send_email w4, w4))))"

definition run_asx_report ::
    "'w system \<Rightarrow> string option \<Rightarrow> string \<Rightarrow> string \<Rightarrow> string option \<Rightarrow> string option \<Rightarrow> bool
       \<Rightarrow> 'w \<Rightarrow> (exn + payload) \<times> 'w" where
  "run_asx_report sys asx_code recipient output_dir email_subject email_body send_email w0 =
     (let normalized_code = normalize_asx_code asx_code;
          slug = or_else normalized_code ''HUB'';
          timestamp = strftime_now sys ''%Y%m%d-%H%M%S'' w0
      in case resolve_output_dir sys output_dir w0 of
           (Inl exc, w1) \<Rightarrow> (Inl exc, w1)
         | (Inr resolved_output_dir, w1) \<Rightarrow>
             (let image_path = artifact_path sys resolved_output_dir slug timestamp ''.png'';
                  docx_path = artifact_path sys resolved_output_dir slug timestamp ''.docx'';
                  pdf_path = artifact_path sys resolved_output_dir slug timestamp ''.pdf'';
                  source_url = build_asx_url normalized_code
              in case playwright_capture sys source_url image_path w1 of
                   (Inl exc, w2) \<Rightarrow> (Inl exc, w2)
                 | (Inr capture_result, w2) \<Rightarrow>
                     deliver_report sys normalized_code slug recipient email_subject email_body
                       send_email source_url image_path docx_path pdf_path capture_result w2))"

text \<open>A variant in which the mail script exits with a non-zero status.\<close>

definition sim_mail_fails :: "sim_world system" where
  "sim_mail_fails =
     sim_word_system
       \<lparr>subprocess_run := (\<lambda>cmd timeout w.
          (Some (OtherError ''Command osascript returned non-zero exit status 1''), w))\<rparr>"

section \<open>The normalizer on the reference inputs\<close>

lemma normalize_BHP: "normalize_asx_code (Some ''BHP'') = Some ''BHP''"
  by code_simp

lemma normalize_bhp_ax: "normalize_asx_code (Some ''bhp.ax'') = Some ''BHP''"
  by code_simp

lemma normalize_quote_url:
  "normalize_asx_code (Some ''https://au.finance.yahoo.com/quote/CBA.AX/'') = Some ''CBA''"
  by code_simp

lemma normalize_for_csl:
  "normalize_asx_code (Some ''please send me the report for csl'') = Some ''CSL''"
  by code_simp

lemma normalize_daily_report:
  "normalize_asx_code (Some ''send the daily report'') = None"
  by code_simp

lemma daily_report_tokens:
  "findall_tokens None (sub_emails (sub_urls (upper (strip ''send the daily report''))))
     = [''SEND'', ''THE'', ''DAILY'', ''REPORT'']"
  by code_simp

lemma daily_report_stopwords:
  "list_all is_stopword [''SEND'', ''THE'', ''DAILY'', ''REPORT'']"
  by code_simp

text \<open>
  Claim C4. The normalizer maps \<open>BHP\<close> to \<open>BHP\<close>, \<open>bhp.ax\<close> to \<open>BHP\<close>, the quote URL
  of CBA to \<open>CBA\<close> and the sentence "please send me the report for csl" to \<open>CSL\<close>; it
  finds no code in "send the daily report", whose tokens are \<open>SEND\<close>, \<open>THE\<close>, \<open>DAILY\<close>
  and \<open>REPORT\<close>, every one of them a stopword.
\<close>

theorem normalize_reference_inputs:
  "normalize_asx_code (Some ''BHP'') = Some ''BHP''
   \<and> normalize_asx_code (Some ''bhp.ax'') = Some ''BHP''
   \<and> normalize_asx_code (Some ''https://au.finance.yahoo.com/quote/CBA.AX/'') = Some ''CBA''
   \<and> normalize_asx_code (Some ''please send me the report for csl'') = Some ''CSL''
   \<and> normalize_asx_code (Some ''send the daily report'') = None
   \<and> list_all is_stopword
        (findall_tokens None (sub_emails (sub_urls (upper (strip ''send the daily report'')))))"
  using normalize_BHP normalize_bhp_ax normalize_quote_url normalize_for_csl
    normalize_daily_report daily_report_stopwords
  by (simp only: daily_report_tokens simp_thms)

section \<open>Source URLs pass the capture identity check\<close>

lemma startswith_append: "startswith (p @ x) p"
  by (induction p) auto

lemma contains_prefix: "contains (p @ x) p"
  by (cases "p @ x") (auto simp: startswith_append simp del: startswith.simps dest: sym)

lemma lower_append: "lower (a @ b) = lower a @ lower b"
  by (simp add: lower_def)

lemma takeWhile_stop: "\<not> P c \<Longrightarrow> takeWhile P (xs @ c # ys) = takeWhile P xs"
  by (induction xs) auto

lemma after_last_length: "length (after_last c (a @ c # b)) \<le> length b"
proof -
  have "takeWhile (\<lambda>x. x \<noteq> c) (rev b @ c # rev a) = takeWhile (\<lambda>x. x \<noteq> c) (rev b)"
    by (rule takeWhile_stop) simp
  then show ?thesis
    by (simp add: after_last_def) (metis length_rev length_takeWhile_le)
qed

lemma take_append_keep:
  "length t \<le> length x \<Longrightarrow> take (length (p @ x) - length t) (p @ x) = p @ take (length x - length t) x"
  by simp

lemma splitparams_quote: "\<exists>y. fst (splitparams (''/quote/'' @ x)) = ''/quote/'' @ y"
proof -
  let ?p = "''/quote/'' @ x"
  have m: "List.member ?p (CHR ''/'')" by simp
  have "length (after_last (CHR ''/'') (''/quote'' @ CHR ''/'' # x)) \<le> length x"
    by (rule after_last_length)
  then have len: "length (after_last (CHR ''/'') ?p) \<le> length x" by simp
  define t where "t = after_last (CHR ''/'') ?p"
  have tk: "take (length ?p - length t) ?p = ''/quote/'' @ take (length x - length t) x"
    using len unfolding t_def[symmetric] by (rule take_append_keep)
  show ?thesis
    using m unfolding splitparams_def t_def[symmetric] Let_def tk
    by (auto simp del: append.simps)
qed

lemma urlsplit_quote:
  "\<exists>x. urlsplit (''https://au.finance.yahoo.com/quote/'' @ rest)
     = Some \<lparr>scheme = ''https'', netloc = ''au.finance.yahoo.com'', path = ''/quote/'' @ x,
             params = [], query = after_first (CHR ''?'') (before_first (CHR ''#'') (''/quote/'' @ filter (\<lambda>c. \<not> is_unsafe_url_byte c) rest)),
             fragment = after_first (CHR ''#'') (''/quote/'' @ filter (\<lambda>c. \<not> is_unsafe_url_byte c) rest)\<rparr>"
  unfolding urlsplit_def Let_def
  apply (simp add: lstrip_by_def is_c0_or_space_def is_unsafe_url_byte_def split_scheme_def before_first_def after_first_def
     is_scheme_char_def is_AZ09_def is_AZ_def is_az_def is_digit_def upper_letters_def lower_letters_def digits_def is_alpha_def
     lower_def to_lower_def split_netloc_def is_netloc_delim_def brackets_pair_up_def)
  done

lemma urlparse_quote:
  "\<exists>r x. urlparse (''https://au.finance.yahoo.com/quote/'' @ rest) = Some r
     \<and> netloc r = ''au.finance.yahoo.com'' \<and> path r = ''/quote/'' @ x"
proof -
  obtain x r where r: "urlsplit (''https://au.finance.yahoo.com/quote/'' @ rest) = Some r"
    and n: "netloc r = ''au.finance.yahoo.com''" and p: "path r = ''/quote/'' @ x"
    using urlsplit_quote[of rest] by force
  obtain y where y: "fst (splitparams (''/quote/'' @ x)) = ''/quote/'' @ y"
    using splitparams_quote by blast
  show ?thesis
    unfolding urlparse_def r using n p y by auto
qed

lemma yahoo_hostname:
  "netloc r = ''au.finance.yahoo.com'' \<Longrightarrow> hostname r = Some ''au.finance.yahoo.com''"
  unfolding hostname_def Let_def
  by (simp add: after_last_def before_first_def lower_def to_lower_def upper_letters_def lower_letters_def)

lemma is_asx_url_quote: "is_asx_url (''https://au.finance.yahoo.com/quote/'' @ rest)"
proof -
  obtain r x where r: "urlparse (''https://au.finance.yahoo.com/quote/'' @ rest) = Some r"
    and n: "netloc r = ''au.finance.yahoo.com''" and p: "path r = ''/quote/'' @ x"
    using urlparse_quote by blast
  have h: "hostname_of (''https://au.finance.yahoo.com/quote/'' @ rest) = ''au.finance.yahoo.com''"
    unfolding hostname_of_def r using yahoo_hostname[OF n]
    by (simp add: lower_def to_lower_def upper_letters_def lower_letters_def)
  have "lower (path r) = ''/quote/'' @ lower x"
    unfolding p lower_append by (simp add: lower_def to_lower_def upper_letters_def lower_letters_def)
  then have c: "contains (lower (path r)) ''/quote/''"
    using contains_prefix[of "''/quote/''" "lower x"] by simp
  show ?thesis
    unfolding is_asx_url_def h Let_def r using c by (simp add: YAHOO_HOST_SUFFIXES_def)
qed

text \<open>
  Claim C10. Whatever the request text is, the source URL built from its normalized
  code passes \<open>_is_asx_url\<close>: its host is a Yahoo Finance host and its path contains
  \<open>/quote/\<close>. A request without a code gives the URL of the default code \<open>HUB\<close>.
\<close>

theorem built_url_is_asx_url:
  "is_asx_url (build_asx_url (normalize_asx_code s))
   \<and> build_asx_url None = ''https://au.finance.yahoo.com/quote/HUB.AX/''"
proof
  show "is_asx_url (build_asx_url (normalize_asx_code s))"
    unfolding build_asx_url_def Let_def by (simp only: append_assoc is_asx_url_quote)
  show "build_asx_url None = ''https://au.finance.yahoo.com/quote/HUB.AX/''"
    by code_simp
qed

section \<open>Normalizing a normalized code\<close>

lemma AZ09_cases:
  "is_AZ09 c \<Longrightarrow> c \<in> set (upper_letters @ digits)"
  by (auto simp: is_AZ09_def is_AZ_def is_digit_def split: if_splits)

lemma AZ09_not_space: "is_AZ09 c \<Longrightarrow> \<not> is_space c"
  by (drule AZ09_cases) (auto simp: upper_letters_def digits_def is_space_def)

lemma not_az_to_upper: "\<not> is_az c \<Longrightarrow> to_upper c = c"
proof -
  assume "\<not> is_az c"
  then have "c \<notin> set lower_letters" by (simp add: is_az_def)
  moreover have "length lower_letters = length upper_letters"
    by (simp add: lower_letters_def upper_letters_def)
  ultimately have "map_of (zip lower_letters upper_letters) c = None"
    by simp
  then show ?thesis by (simp add: to_upper_def)
qed

lemma AZ09_not_az: "is_AZ09 c \<Longrightarrow> \<not> is_az c"
  by (drule AZ09_cases) (auto simp: upper_letters_def digits_def is_az_def lower_letters_def)

lemma AZ09_to_upper: "is_AZ09 c \<Longrightarrow> to_upper c = c"
  by (simp add: AZ09_not_az not_az_to_upper)

lemma AZ09_not_dot: "is_AZ09 c \<Longrightarrow> c \<noteq> CHR ''.''"
  by (drule AZ09_cases) (auto simp: upper_letters_def digits_def)

lemma AZ09_AZ09dot: "is_AZ09 c \<Longrightarrow> is_AZ09dot c"
  by (simp add: is_AZ09dot_def)

lemma upper_AZ09: "list_all is_AZ09 s \<Longrightarrow> upper s = s"
  by (induction s) (auto simp: upper_def AZ09_to_upper)

lemma strip_by_none: "list_all (\<lambda>c. \<not> p c) s \<Longrightarrow> strip_by p s = s"
proof -
  assume a: "list_all (\<lambda>c. \<not> p c) s"
  have d: "dropWhile p t = t" if "list_all (\<lambda>c. \<not> p c) t" for t
    using that by (cases t) auto
  have "list_all (\<lambda>c. \<not> p c) (rev s)" using a by (simp add: list_all_iff)
  then show ?thesis
    by (simp add: strip_by_def lstrip_by_def rstrip_by_def d[OF a] d)
qed

lemma strip_AZ09: "list_all is_AZ09 s \<Longrightarrow> strip s = s"
  unfolding strip_def
  by (rule strip_by_none) (auto simp: list_all_iff AZ09_not_space)

lemma startswith_set: "startswith s p \<Longrightarrow> set p \<subseteq> set s"
  by (induction s p rule: startswith.induct) (auto split: if_splits)

lemma endswith_set: "endswith s p \<Longrightarrow> set p \<subseteq> set s"
  unfolding endswith_def by (drule startswith_set) simp

lemma first_some_Some: "first_some f xs = Some y \<Longrightarrow> \<exists>x \<in> set xs. f x = Some y"
  by (induction xs) (auto split: option.splits)

lemma clean_shape_code_shape: "clean_shape c \<Longrightarrow> code_shape c"
  by (auto simp: clean_shape_def code_shape_def list_all_iff AZ09_AZ09dot)

lemma ax_code_shape:
  "ax_code (filter is_AZ09dot t) = Some c \<Longrightarrow> code_shape c"
  unfolding ax_code_def Let_def code_shape_def
  by (auto split: if_splits simp: list_all_iff dest: in_set_takeD)

lemma code_from_url_shape: "code_from_url m = Some c \<Longrightarrow> code_shape c"
  unfolding code_from_url_def
  by (auto split: option.splits dest!: first_some_Some dest: ax_code_shape)

lemma marker_code_shape: "marker_code m = Some c \<Longrightarrow> clean_shape c"
  unfolding marker_code_def Let_def clean_shape_def
  by (auto split: option.splits if_splits simp: list_all_iff)

lemma code_group_shape:
  "code_group t = Some g \<Longrightarrow> 2 \<le> length g \<and> length g \<le> 6 \<and> list_all is_AZ09 g"
  unfolding code_group_def Let_def
  by (auto split: if_splits simp: list_all_iff dest: set_takeWhileD)

lemma token_at_shape:
  "token_at t = Some g \<Longrightarrow> 2 \<le> length g \<and> length g \<le> 6 \<and> list_all is_AZ09 g"
  unfolding token_at_def by (auto split: list.splits if_splits dest: code_group_shape)

lemma findall_tokens_shape:
  "g \<in> set (findall_tokens prev t) \<Longrightarrow> 2 \<le> length g \<and> length g \<le> 6 \<and> list_all is_AZ09 g"
  by (induction t arbitrary: prev) (auto split: if_splits option.splits dest: token_at_shape)

lemma find_SomeD: "List.find P xs = Some x \<Longrightarrow> x \<in> set xs \<and> P x"
  by (induction xs) (auto split: if_splits)

lemma code_from_text_shape: "code_from_text t = Some c \<Longrightarrow> clean_shape c"
  unfolding code_from_text_def
  apply (auto split: option.splits dest!: first_some_Some find_SomeD dest: marker_code_shape)
  apply (auto simp: clean_shape_def dest: findall_tokens_shape)
  done

lemma dot_ax_match_shape:
  "dot_ax_match up = Some g \<Longrightarrow> 1 \<le> length g \<and> length g \<le> 6 \<and> list_all is_AZ09 g"
  unfolding dot_ax_match_def Let_def by (auto split: if_splits)

lemma normalize_shape: "normalize_asx_code x = Some c \<Longrightarrow> code_shape c"
  unfolding normalize_asx_code_def Let_def
  apply (auto split: option.splits if_splits dest: code_from_url_shape code_from_text_shape clean_shape_code_shape)
    apply (auto simp: code_shape_def clean_match_def list_all_iff AZ09_AZ09dot dest!: dot_ax_match_shape)
  done

lemma normalize_clean: 
  assumes "clean_shape c" shows "normalize_asx_code (Some c) = Some c"
proof -
  have az: "list_all is_AZ09 c" and len: "2 \<le> length c" "length c \<le> 6" and nd: "\<not> isdigit c"
    using assms by (auto simp: clean_shape_def)
  have s: "strip c = c" and u: "upper c = c" using az by (simp_all add: strip_AZ09 upper_AZ09)
  have "CHR ''.'' \<notin> set c" using az by (auto simp: list_all_iff dest: AZ09_not_dot)
  then have "\<not> endswith c ''.AX''" using endswith_set[of c "''.AX''"] by auto
  then have d: "dot_ax_match c = None" by (simp add: dot_ax_match_def Let_def)
  have ne: "c \<noteq> []" using len by auto
  show ?thesis
    unfolding normalize_asx_code_def Let_def
    using d ne az len nd by (simp add: s u clean_match_def)
qed

lemma AZ09dot_cases: "is_AZ09dot c \<Longrightarrow> c \<in> set (upper_letters @ digits @ ''.'')"
  by (auto simp: is_AZ09dot_def is_AZ09_def is_AZ_def is_digit_def split: if_splits)

lemma AZ09dot_not_space: "is_AZ09dot c \<Longrightarrow> \<not> is_space c"
  by (drule AZ09dot_cases) (auto simp: upper_letters_def digits_def is_space_def)

lemma AZ09dot_not_az: "is_AZ09dot c \<Longrightarrow> \<not> is_az c"
  by (drule AZ09dot_cases) (auto simp: upper_letters_def digits_def is_az_def lower_letters_def)

lemma AZ09dot_not_colon: "is_AZ09dot c \<Longrightarrow> c \<noteq> CHR '':''"
  by (drule AZ09dot_cases) (auto simp: upper_letters_def digits_def)

lemma upper_AZ09dot: "list_all is_AZ09dot s \<Longrightarrow> upper s = s"
  by (induction s) (auto simp: upper_def AZ09dot_not_az not_az_to_upper)

lemma strip_AZ09dot: "list_all is_AZ09dot s \<Longrightarrow> strip s = s"
  unfolding strip_def
  by (rule strip_by_none) (auto simp: list_all_iff AZ09dot_not_space)

lemma to_lower_colon: "to_lower c = CHR '':'' \<Longrightarrow> c = CHR '':''"
proof -
  assume a: "to_lower c = CHR '':''"
  show ?thesis
  proof (cases "map_of (zip upper_letters lower_letters) c")
    case None
    then show ?thesis using a by (simp add: to_lower_def)
  next
    case (Some l)
    then have "l \<in> set lower_letters"
      by (auto dest!: map_of_SomeD set_zip_rightD)
    moreover have "l = CHR '':''" using a Some by (simp add: to_lower_def)
    ultimately show ?thesis by (simp add: lower_letters_def)
  qed
qed

lemma lit_match_colon:
  assumes "lit_match ci lit t" and "CHR '':'' \<in> set lit"
  shows "CHR '':'' \<in> set t"
proof (cases ci)
  case True
  then have "set lit \<subseteq> set (lower t)"
    using assms(1) by (auto simp: lit_match_def dest: startswith_set)
  then have "CHR '':'' \<in> to_lower ` set t" using assms(2) by (auto simp: lower_def)
  then obtain x where "x \<in> set t" and "to_lower x = CHR '':''" by auto
  then show ?thesis using to_lower_colon by metis
next
  case False
  then show ?thesis using assms by (auto simp: lit_match_def dest: startswith_set)
qed

lemma url_match_at_colon: "url_match_at ci t = Some m \<Longrightarrow> CHR '':'' \<in> set t"
  unfolding url_match_at_def
  by (auto split: if_splits dest: lit_match_colon)

lemma url_search_colon: "url_search ci t = Some m \<Longrightarrow> CHR '':'' \<in> set t"
  by (induction t) (auto split: option.splits dest: url_match_at_colon)

lemma dot_ax_match_shorter: "dot_ax_match up = Some g \<Longrightarrow> length g < length up"
  unfolding dot_ax_match_def Let_def by (auto split: if_splits)

lemma normalize_fixed_point_clean:
  assumes sh: "code_shape c" and fp: "normalize_asx_code (Some c) = Some c"
  shows "clean_shape c"
proof -
  have azd: "list_all is_AZ09dot c" and ne: "c \<noteq> []" and nd: "\<not> isdigit c"
    using sh by (auto simp: code_shape_def)
  have s: "strip c = c" and u: "upper c = c"
    using azd by (simp_all add: strip_AZ09dot upper_AZ09dot)
  have "CHR '':'' \<notin> set c" using azd by (auto simp: list_all_iff dest: AZ09dot_not_colon)
  then have nourl: "url_search True c = None"
    using url_search_colon[of True c] by (cases "url_search True c") auto
  define d where "d = (case dot_ax_match c of
                         None \<Rightarrow> None
                       | Some g \<Rightarrow> if isdigit g then None else Some g)"
  show ?thesis
  proof (cases d)
    case (Some g)
    then have "dot_ax_match c = Some g"
      unfolding d_def by (auto split: option.splits if_splits)
    then have "length g < length c" by (rule dot_ax_match_shorter)
    then have "g \<noteq> c" by auto
    then show ?thesis
      using fp Some ne by (simp add: normalize_asx_code_def Let_def s u d_def[symmetric])
  next
    case None
    show ?thesis
    proof (cases "clean_match c")
      case True
      then show ?thesis using nd by (simp add: clean_match_def clean_shape_def)
    next
      case False
      then have "code_from_text (sub_emails (sub_urls c)) = Some c"
        using fp None ne nourl by (simp add: normalize_asx_code_def Let_def s u d_def[symmetric])
      then show ?thesis by (rule code_from_text_shape)
    qed
  qed
qed

lemma A_AX_first: "normalize_asx_code (Some ''A.AX'') = Some ''A''"
  by code_simp

lemma A_AX_second: "normalize_asx_code (Some ''A'') = None"
  by code_simp

text \<open>
  Claim C3, as amended. When the normalizer returns a code for a request, normalizing
  that code again returns it unchanged exactly when the code has at least two
  characters and no dot. (A one-character code comes from a \<open>X.AX\<close> ticker or a URL,
  a code with a dot from a URL; neither is accepted as a request of its own.)
\<close>

theorem normalize_idempotent_on_clean_codes:
  assumes "normalize_asx_code x = Some c"
  shows "(normalize_asx_code (normalize_asx_code x) = normalize_asx_code x)
         = (2 \<le> length c \<and> CHR ''.'' \<notin> set c)"
proof -
  have sh: "code_shape c" using assms by (rule normalize_shape)
  have cl: "clean_shape c = (2 \<le> length c \<and> CHR ''.'' \<notin> set c)"
    using sh
    by (auto simp: code_shape_def clean_shape_def list_all_iff is_AZ09dot_def
             split: if_splits dest: AZ09_not_dot)
  have "(normalize_asx_code (Some c) = Some c) = clean_shape c"
    using normalize_fixed_point_clean[OF sh] normalize_clean[of c] by blast
  then show ?thesis using assms cl by simp
qed

theorem normalize_idempotent_on_clean_codes_witness:
  "normalize_asx_code (Some ''bhp.ax'') = Some ''BHP''
   \<and> normalize_asx_code (normalize_asx_code (Some ''bhp.ax'')) = normalize_asx_code (Some ''bhp.ax'')"
proof -
  have h: "normalize_asx_code (Some ''bhp.ax'') = Some ''BHP''" by code_simp
  have "(normalize_asx_code (normalize_asx_code (Some ''bhp.ax'')) = normalize_asx_code (Some ''bhp.ax''))
        = (2 \<le> length ''BHP'' \<and> CHR ''.'' \<notin> set ''BHP'')"
    by (rule normalize_idempotent_on_clean_codes[OF h])
  then have "normalize_asx_code (normalize_asx_code (Some ''bhp.ax'')) = normalize_asx_code (Some ''bhp.ax'')"
    by simp
  with h show ?thesis by (rule conjI)
qed

text \<open>The claim as it was stated fails on the ticker \<open>A.AX\<close>: it normalizes to
  \<open>A\<close>, and \<open>A\<close> alone is not a code.\<close>

theorem normalize_not_idempotent:
  "normalize_asx_code (Some ''A.AX'') \<noteq> None
   \<and> normalize_asx_code (normalize_asx_code (Some ''A.AX'')) \<noteq> normalize_asx_code (Some ''A.AX'')"
  by (simp add: A_AX_first A_AX_second)


section \<open>The request coordinator\<close>

lemma fresh_entry_pruned:
  "fresh_entry now w (prune_entries now w c k) = fresh_entry now w (c k)"
  by (auto simp: fresh_entry_def prune_entries_def split: option.splits)





lemma bhp_key:
  "request_key (req_asx_code bhp_request) (req_recipient bhp_request) (req_send_email bhp_request)
     = ''BHP|a@b.c|true''"
  by code_simp

lemma default_windows:
  "dedupe_window_seconds default_environ = 90" "error_dedupe_window_seconds default_environ = 25"
  by (simp_all add: dedupe_window_seconds_def error_dedupe_window_seconds_def default_environ_def)



text \<open>
  Claim C5. Take a call whose identity has a failure-cache entry and no success-cache
  entry that applies. If the age of the failure is within the failure window, the
  call raises the error "Skipped duplicate retry after recent failure" followed by the
  detail of that failure, and creates no task: the outcome is an exception, not a result.
  If the failure window has elapsed and no execution of the identity is in flight, the
  call creates a new task and owns it, so the pipeline runs again.
\<close>

theorem failure_window_suppression:
  assumes "RECENT_ERRORS st (request_key (req_asx_code req) (req_recipient req) (req_send_email req))
             = Some (ts, detail)"
    and "fresh_entry now (dedupe_window_seconds env)
           (RECENT_RESULTS st (request_key (req_asx_code req) (req_recipient req) (req_send_email req)))
           = None"
  shows "(0 < error_dedupe_window_seconds env
            \<and> now - ts \<le> real_of_int (error_dedupe_window_seconds env)
          \<longrightarrow> create_asx_report_admit env now req st
                = (Raised (AsxReportError
                     (''Skipped duplicate retry after recent failure: '' @ detail)),
                   prune_cache now (dedupe_window_seconds env) (error_dedupe_window_seconds env) st)
              \<and> tasks (snd (create_asx_report_admit env now req st)) = tasks st)
         \<and> (real_of_int (error_dedupe_window_seconds env) < now - ts
              \<and> IN_FLIGHT st (request_key (req_asx_code req) (req_recipient req) (req_send_email req))
                  = None
          \<longrightarrow> fst (create_asx_report_admit env now req st)
                = Awaits (request_key (req_asx_code req) (req_recipient req) (req_send_email req))
                    (dedupe_window_seconds env) (length (tasks st)) True
              \<and> tasks (snd (create_asx_report_admit env now req st)) = tasks st @ [req])"
proof -
  let ?key = "request_key (req_asx_code req) (req_recipient req) (req_send_email req)"
  let ?sw = "dedupe_window_seconds env"
  let ?ew = "error_dedupe_window_seconds env"
  let ?st = "prune_cache now ?sw ?ew st"
  have r: "fresh_entry now ?sw (RECENT_RESULTS ?st ?key) = None"
    using assms(2) by (simp add: prune_cache_def fresh_entry_pruned)
  have e: "fresh_entry now ?ew (RECENT_ERRORS ?st ?key) = fresh_entry now ?ew (Some (ts, detail))"
    using assms(1) by (simp add: prune_cache_def fresh_entry_pruned)
  have f: "IN_FLIGHT ?st = IN_FLIGHT st" and t: "tasks ?st = tasks st"
    by (simp_all add: prune_cache_def)
  show ?thesis
  proof (intro conjI impI)
    assume w: "0 < ?ew \<and> now - ts \<le> real_of_int ?ew"
    then have "fresh_entry now ?ew (RECENT_ERRORS ?st ?key) = Some detail"
      unfolding e by (simp add: fresh_entry_def)
    then show "create_asx_report_admit env now req st
                = (Raised (AsxReportError
                     (''Skipped duplicate retry after recent failure: '' @ detail)), ?st)"
      using r by (simp add: create_asx_report_admit_def Let_def)
    then show "tasks (snd (create_asx_report_admit env now req st)) = tasks st"
      using t by simp
  next
    assume w: "real_of_int ?ew < now - ts \<and> IN_FLIGHT st ?key = None"
    then have n: "fresh_entry now ?ew (RECENT_ERRORS ?st ?key) = None"
      unfolding e by (simp add: fresh_entry_def)
    have i: "IN_FLIGHT ?st ?key = None" using w f by simp
    show "fst (create_asx_report_admit env now req st)
            = Awaits ?key ?sw (length (tasks st)) True"
      using r n i t by (simp add: create_asx_report_admit_def Let_def)
    show "tasks (snd (create_asx_report_admit env now req st)) = tasks st @ [req]"
      using r n i t by (simp add: create_asx_report_admit_def Let_def)
  qed
qed


theorem failure_window_suppression_witness:
  "fst (create_asx_report_admit default_environ 20 bhp_request
          (initial_coordinator\<lparr>RECENT_ERRORS := [''BHP|a@b.c|true'' \<mapsto> (10, ''boom'')]\<rparr>))
     = Raised (AsxReportError ''Skipped duplicate retry after recent failure: boom'')
   \<and> tasks (snd (create_asx_report_admit default_environ 20 bhp_request
          (initial_coordinator\<lparr>RECENT_ERRORS := [''BHP|a@b.c|true'' \<mapsto> (10, ''boom'')]\<rparr>))) = []
   \<and> fst (create_asx_report_admit default_environ 40 bhp_request
          (initial_coordinator\<lparr>RECENT_ERRORS := [''BHP|a@b.c|true'' \<mapsto> (10, ''boom'')]\<rparr>))
     = Awaits ''BHP|a@b.c|true'' 90 0 True
   \<and> tasks (snd (create_asx_report_admit default_environ 40 bhp_request
          (initial_coordinator\<lparr>RECENT_ERRORS := [''BHP|a@b.c|true'' \<mapsto> (10, ''boom'')]\<rparr>)))
     = [bhp_request]"
proof -
  let ?st = "initial_coordinator\<lparr>RECENT_ERRORS := [''BHP|a@b.c|true'' \<mapsto> (10, ''boom'')]\<rparr>"
  have a: "RECENT_ERRORS ?st (request_key (req_asx_code bhp_request) (req_recipient bhp_request)
             (req_send_email bhp_request)) = Some (10, ''boom'')"
    by (simp add: bhp_key)
  have b: "fresh_entry now (dedupe_window_seconds default_environ)
             (RECENT_RESULTS ?st (request_key (req_asx_code bhp_request)
                (req_recipient bhp_request) (req_send_email bhp_request))) = None" for now
    by (simp add: initial_coordinator_def fresh_entry_def)
  have i: "IN_FLIGHT ?st ''BHP|a@b.c|true'' = None" and t: "tasks ?st = []"
    by (simp_all add: initial_coordinator_def)
  have "fst (create_asx_report_admit default_environ 20 bhp_request ?st)
          = Raised (AsxReportError ''Skipped duplicate retry after recent failure: boom'')
        \<and> tasks (snd (create_asx_report_admit default_environ 20 bhp_request ?st)) = []"
    using failure_window_suppression[OF a b, of 20] t by (simp add: default_windows bhp_key prune_cache_def)
  moreover have "fst (create_asx_report_admit default_environ 40 bhp_request ?st)
          = Awaits ''BHP|a@b.c|true'' 90 0 True
        \<and> tasks (snd (create_asx_report_admit default_environ 40 bhp_request ?st)) = [bhp_request]"
    using failure_window_suppression[OF a b, of 40] i t by (simp add: default_windows bhp_key prune_cache_def)
  ultimately show ?thesis by simp
qed




lemma first_admit:
  "create_asx_report_admit default_environ 0 bhp_request initial_coordinator
     = (Awaits ''BHP|a@b.c|true'' 90 0 True,
        initial_coordinator\<lparr>IN_FLIGHT := [''BHP|a@b.c|true'' \<mapsto> 0], tasks := [bhp_request]\<rparr>)"
  by (simp add: create_asx_report_admit_def Let_def bhp_key default_windows prune_cache_def
        prune_entries_def fresh_entry_def initial_coordinator_def)


lemma settle_success_exclusive:
  "RECENT_ERRORS (snd (create_asx_report_settle now key w True (Inr result) st)) key = None
   \<and> RECENT_RESULTS (snd (create_asx_report_settle now key w True (Inr result) st)) key
       = Some (now, result)"
  by (simp add: create_asx_report_settle_def)

text \<open>
  Claim C2 does not hold of the code. A success is recorded at time 1; a call at time
  100 finds it older than the success window (90) but younger than twice the window,
  so the entry stays and a new task starts; the task fails at time 101. The failure is
  recorded and the success entry is still there: both caches hold the identity. (On the
  success path, \<open>settle_success_exclusive\<close>, the failure entry is removed.)
\<close>

theorem stale_success_survives_failure:
  "fst (create_asx_report_admit default_environ 0 bhp_request initial_coordinator)
     = Awaits ''BHP|a@b.c|true'' 90 0 True
   \<and> fst (create_asx_report_admit default_environ 100 bhp_request
        (snd (create_asx_report_settle 1 ''BHP|a@b.c|true'' 90 True (Inr bhp_payload)
           (snd (create_asx_report_admit default_environ 0 bhp_request initial_coordinator)))))
     = Awaits ''BHP|a@b.c|true'' 90 1 True
   \<and> RECENT_RESULTS
        (snd (create_asx_report_settle 101 ''BHP|a@b.c|true'' 90 True (Inl (OtherError ''boom''))
           (snd (create_asx_report_admit default_environ 100 bhp_request
              (snd (create_asx_report_settle 1 ''BHP|a@b.c|true'' 90 True (Inr bhp_payload)
                 (snd (create_asx_report_admit default_environ 0 bhp_request
                    initial_coordinator))))))))
        ''BHP|a@b.c|true'' = Some (1, bhp_payload)
   \<and> RECENT_ERRORS
        (snd (create_asx_report_settle 101 ''BHP|a@b.c|true'' 90 True (Inl (OtherError ''boom''))
           (snd (create_asx_report_admit default_environ 100 bhp_request
              (snd (create_asx_report_settle 1 ''BHP|a@b.c|true'' 90 True (Inr bhp_payload)
                 (snd (create_asx_report_admit default_environ 0 bhp_request
                    initial_coordinator))))))))
        ''BHP|a@b.c|true'' = Some (101, ''boom'')"
  by (simp add: first_admit create_asx_report_settle_def create_asx_report_admit_def Let_def
        bhp_key default_windows prune_cache_def prune_entries_def fresh_entry_def
        initial_coordinator_def)


section \<open>The output location resolver\<close>









lemma sim_placeholder: "is_placeholder_output_dir ''/Path/To/Local/Directory/''"
  by code_simp

lemma sim_candidates:
  "unique_candidates sim_system ''/Path/To/Local/Directory/'' sim_initial
     = [''output'', ''/home/u/Desktop/asx-mcp-output'', ''/tmp/asx-mcp-output'']"
  by code_simp






section \<open>The fallback conversion pipeline\<close>

















lemma startswith_appendI: "startswith s p \<Longrightarrow> startswith (s @ b) p"
  by (induction s p rule: startswith.induct) (auto split: if_splits)

lemma contains_appendI: "contains s p \<Longrightarrow> contains (s @ b) p"
proof (induction s)
  case Nil
  then show ?case by (cases b) auto
next
  case (Cons c cs)
  then show ?case
    using startswith_appendI[of "c # cs" p b] by (auto split: if_splits)
qed

lemma contains_prependI: "contains s p \<Longrightarrow> contains (a @ s) p"
  by (induction a) auto

lemma contains_self: "contains p p"
  using contains_prefix[of p "[]"] by simp

lemma contains_middle: "contains (a @ p @ b) p"
  by (intro contains_prependI contains_appendI contains_self)














section \<open>Delivery\<close>

lemma default_subject_contains:
  "contains (default_subject slug generated_at) (upper slug)
   \<and> contains (default_subject slug generated_at) generated_at"
proof
  show "contains (default_subject slug generated_at) (upper slug)"
    unfolding default_subject_def by (rule contains_middle)
  have "contains ((''Yahoo Finance Chart Report: '' @ upper slug @ '' ('') @ generated_at @ '')'')
          generated_at"
    by (rule contains_middle)
  then show "contains (default_subject slug generated_at) generated_at"
    by (simp add: default_subject_def)
qed

lemma default_body_contains:
  "contains (default_body normalized_code source_url generated_at)
     (upper (or_else normalized_code ''HUB''))
   \<and> contains (default_body normalized_code source_url generated_at) generated_at"
proof
  have "contains ((''Attached is your Yahoo Finance chart report PDF.'' @ [CHR 0x0A, CHR 0x0A]
                   @ ''Ticker: '') @ upper (or_else normalized_code ''HUB'')
                  @ (''.AX'' @ [CHR 0x0A] @ ''Source URL: '' @ source_url @ [CHR 0x0A]
                     @ ''Generated: '' @ generated_at))
          (upper (or_else normalized_code ''HUB''))"
    by (rule contains_middle)
  then show "contains (default_body normalized_code source_url generated_at)
     (upper (or_else normalized_code ''HUB''))"
    by (simp add: default_body_def)
  have "contains ((''Attached is your Yahoo Finance chart report PDF.'' @ [CHR 0x0A, CHR 0x0A]
                   @ ''Ticker: '' @ upper (or_else normalized_code ''HUB'') @ ''.AX'' @ [CHR 0x0A]
                   @ ''Source URL: '' @ source_url @ [CHR 0x0A] @ ''Generated: '')
                  @ generated_at @ [])
          generated_at"
    by (rule contains_middle)
  then show "contains (default_body normalized_code source_url generated_at) generated_at"
    by (simp add: default_body_def)
qed

text \<open>
  Claim C9. Take a run of \<open>run_asx_report\<close> with \<open>send_email\<close> true in which the output
  directory is resolved, the chart is captured, the document is written and the PDF
  is converted. The run then is what the delivery makes of it: \<open>send_email_with_mail_app\<close>
  is called with the recipient, the subject, the body and the PDF path, its exception
  is the exception of the run, and a result is returned only after it has returned
  normally. A missing attachment and a failing \<open>osascript\<close> both end the run with
  their exception. A subject or body the caller does not supply is the generated text,
  which contains the canonical code and the generation time.
\<close>

theorem delivery_is_mandatory:
  assumes "normalized_code = normalize_asx_code asx_code"
    and "slug = or_else normalized_code ''HUB''"
    and "timestamp = strftime_now sys ''%Y%m%d-%H%M%S'' w0"
    and "resolve_output_dir sys output_dir w0 = (Inr dir, w1)"
    and "image_path = artifact_path sys dir slug timestamp ''.png''"
    and "docx_path = artifact_path sys dir slug timestamp ''.docx''"
    and "pdf_path = artifact_path sys dir slug timestamp ''.pdf''"
    and "source_url = build_asx_url normalized_code"
    and "playwright_capture sys source_url image_path w1 = (Inr capture_result, w2)"
    and "generated_at = strftime_now sys ''%Y-%m-%d %H:%M:%S'' w2"
    and "subject = or_else email_subject (default_subject slug generated_at)"
    and "body = or_else email_body (default_body normalized_code source_url generated_at)"
    and "docx_create_word_report sys subject source_url image_path docx_path w2 = (None, w3)"
    and "convert_docx_to_pdf sys docx_path pdf_path w3 = (Inr converted, w4)"
  shows "run_asx_report sys asx_code recipient output_dir email_subject email_body True w0
           = (case send_email_with_mail_app sys recipient subject body pdf_path w4 of
                (Some exc, w5) \<Rightarrow> (Inl exc, w5)
              | (None, w5) \<Rightarrow>
                  (report_result sys recipient source_url capture_result image_path docx_path
                     pdf_path True w5, w5))
         \<and> (\<forall>result w'.
               run_asx_report sys asx_code recipient output_dir email_subject email_body True w0
                 = (Inr result, w')
               \<longrightarrow> send_email_with_mail_app sys recipient subject body pdf_path w4 = (None, w')
                   \<and> path_exists sys pdf_path w4)
         \<and> (\<not> path_exists sys pdf_path w4
              \<longrightarrow> run_asx_report sys asx_code recipient output_dir email_subject email_body True w0
                    = (Inl (AsxReportError (''Attachment does not exist: '' @ pdf_path)), w4))
         \<and> (path_exists sys pdf_path w4
              \<longrightarrow> (\<forall>exc w5.
                     subprocess_run sys
                       [''osascript'', ''-e'', mail_script, subject, body, recipient,
                        path_resolve sys pdf_path w4] None w4 = (Some exc, w5)
                     \<longrightarrow> run_asx_report sys asx_code recipient output_dir email_subject
                           email_body True w0 = (Inl exc, w5)))
         \<and> (email_subject = None \<or> email_subject = Some []
              \<longrightarrow> contains subject (upper slug) \<and> contains subject generated_at)
         \<and> (email_body = None \<or> email_body = Some []
              \<longrightarrow> contains body (upper slug) \<and> contains body generated_at)"
proof -
  let ?run = "run_asx_report sys asx_code recipient output_dir email_subject email_body True w0"
  let ?send = "send_email_with_mail_app sys recipient subject body pdf_path w4"
  have d: "deliver_report sys normalized_code slug recipient email_subject email_body True
             source_url image_path docx_path pdf_path capture_result w2
           = (case ?send of
                (Some exc, w5) \<Rightarrow> (Inl exc, w5)
              | (None, w5) \<Rightarrow>
                  (report_result sys recipient source_url capture_result image_path docx_path
                     pdf_path True w5, w5))"
    using assms(13,14)
    by (simp add: deliver_report_def Let_def assms(10,11,12)[symmetric])
  have r: "?run = deliver_report sys normalized_code slug recipient email_subject email_body True
             source_url image_path docx_path pdf_path capture_result w2"
    using assms(4,9)
    by (simp add: run_asx_report_def Let_def assms(1,2,3,5,6,7,8)[symmetric])
  have eq: "?run = (case ?send of
                (Some exc, w5) \<Rightarrow> (Inl exc, w5)
              | (None, w5) \<Rightarrow>
                  (report_result sys recipient source_url capture_result image_path docx_path
                     pdf_path True w5, w5))"
    using r d by simp
  have a: "?send = (None, w') \<and> path_exists sys pdf_path w4" if "?run = (Inr result, w')" for result w'
  proof -
    obtain x w5 where s: "?send = (x, w5)" by force
    have "x = None" using that eq s by (cases x) auto
    moreover have "w5 = w'" using that eq s \<open>x = None\<close> by auto
    moreover have "path_exists sys pdf_path w4"
      using s \<open>x = None\<close> by (auto simp: send_email_with_mail_app_def split: if_splits)
    ultimately show ?thesis using s by simp
  qed
  have m: "?run = (Inl (AsxReportError (''Attachment does not exist: '' @ pdf_path)), w4)"
    if "\<not> path_exists sys pdf_path w4"
    using that eq by (simp add: send_email_with_mail_app_def)
  have z: "?run = (Inl exc, w5)"
    if "path_exists sys pdf_path w4"
      "subprocess_run sys [''osascript'', ''-e'', mail_script, subject, body, recipient,
                           path_resolve sys pdf_path w4] None w4 = (Some exc, w5)" for exc w5
    using that eq by (simp add: send_email_with_mail_app_def)
  have s: "contains subject (upper slug) \<and> contains subject generated_at"
    if "email_subject = None \<or> email_subject = Some []"
    using that default_subject_contains by (auto simp: assms(11) or_else_def)
  have b: "contains body (upper slug) \<and> contains body generated_at"
    if "email_body = None \<or> email_body = Some []"
    using that default_body_contains[of normalized_code source_url generated_at]
    by (auto simp: assms(12) assms(2) or_else_def)
  show ?thesis using eq a m z s b by blast
qed


lemma sim_capture:
  "playwright_capture sim_mail_fails u img w
     = (Inr [''final_url'' \<mapsto> u, ''capture_selector'' \<mapsto> ''.highcharts-container''],
        w\<lparr>sim_files := (sim_files w)(sim_abs img \<mapsto> 9000)\<rparr>)"
  by (simp add: sim_mail_fails_def sim_word_system_def sim_system_def)

lemma sim_mail_run:
  "subprocess_run sim_mail_fails cmd t w
     = (Some (OtherError ''Command osascript returned non-zero exit status 1''), w)"
  by (simp add: sim_mail_fails_def)

lemma sim_paths:
  "artifact_path sim_mail_fails ''output'' (or_else (normalize_asx_code (Some ''bhp.ax'')) ''HUB'')
     (strftime_now sim_mail_fails ''%Y%m%d-%H%M%S'' sim_initial) ext
     = ''output/asx-BHP-20240101-000000'' @ ext"
proof -
  have "or_else (normalize_asx_code (Some ''bhp.ax'')) ''HUB'' = ''BHP''" by code_simp
  then show ?thesis
    by (simp add: artifact_path_def sim_mail_fails_def sim_word_system_def sim_system_def)
qed

lemma sim_resolve_output:
  "fst (resolve_output_dir sim_mail_fails ''output'' sim_initial) = Inr ''output''"
  by code_simp

lemma sim_docx_create:
  "docx_create_word_report sim_mail_fails subject u img docx w = sim_put docx 5000 w"
  by (simp add: sim_mail_fails_def sim_word_system_def sim_system_def)

theorem delivery_is_mandatory_witness:
  "fst (run_asx_report sim_mail_fails (Some ''bhp.ax'') ''a@b.c'' ''output'' None None True
          sim_initial)
     = Inl (OtherError ''Command osascript returned non-zero exit status 1'')"
proof -
  let ?sys = "sim_mail_fails"
  let ?img = "''output/asx-BHP-20240101-000000.png''"
  let ?docx = "''output/asx-BHP-20240101-000000.docx''"
  let ?pdf = "''output/asx-BHP-20240101-000000.pdf''"
  let ?slug = "or_else (normalize_asx_code (Some ''bhp.ax'')) ''HUB''"
  let ?ts = "strftime_now ?sys ''%Y%m%d-%H%M%S'' sim_initial"
  define w1 where "w1 = snd (resolve_output_dir ?sys ''output'' sim_initial)"
  define w2 where "w2 = w1\<lparr>sim_files := (sim_files w1)(sim_abs ?img \<mapsto> 9000)\<rparr>"
  define w3 where "w3 = snd (sim_put ?docx 5000 w2)"
  define w4 where "w4 = snd (convert_docx_to_pdf ?sys ?docx ?pdf w3)"
  have a4: "resolve_output_dir ?sys ''output'' sim_initial = (Inr ''output'', w1)"
    using sim_resolve_output by (simp add: w1_def prod_eq_iff)
  have a5: "?img = artifact_path ?sys ''output'' ?slug ?ts ''.png''"
    and a6: "?docx = artifact_path ?sys ''output'' ?slug ?ts ''.docx''"
    and a7: "?pdf = artifact_path ?sys ''output'' ?slug ?ts ''.pdf''"
    by (simp_all add: sim_paths)
  have a9: "playwright_capture ?sys (build_asx_url (normalize_asx_code (Some ''bhp.ax''))) ?img w1
              = (Inr [''final_url'' \<mapsto> build_asx_url (normalize_asx_code (Some ''bhp.ax'')),
                      ''capture_selector'' \<mapsto> ''.highcharts-container''], w2)"
    by (simp add: sim_capture w2_def)
  have "fst (sim_put ?docx 5000 w2) = None"
    unfolding w2_def w1_def by code_simp
  then have a13: "docx_create_word_report ?sys subject u img ?docx w2 = (None, w3)" for subject u img
    by (simp add: sim_docx_create w3_def prod_eq_iff)
  have "fst (convert_docx_to_pdf ?sys ?docx ?pdf w3) = Inr ''/cwd/output/asx-BHP-20240101-000000.pdf''"
    unfolding w3_def w2_def w1_def by code_simp
  then have a14: "convert_docx_to_pdf ?sys ?docx ?pdf w3
                    = (Inr ''/cwd/output/asx-BHP-20240101-000000.pdf'', w4)"
    by (simp add: w4_def prod_eq_iff)
  have ex: "path_exists ?sys ?pdf w4"
    unfolding w4_def w3_def w2_def w1_def by code_simp
  note t = delivery_is_mandatory[where sys = ?sys and asx_code = "Some ''bhp.ax''"
      and output_dir = "''output''" and recipient = "''a@b.c''"
      and email_subject = None and email_body = None,
      OF refl refl refl a4 a5 a6 a7 refl a9 refl refl refl a13 a14]
  have "run_asx_report ?sys (Some ''bhp.ax'') ''a@b.c'' ''output'' None None True sim_initial
          = (Inl (OtherError ''Command osascript returned non-zero exit status 1''), w4)"
    using t ex sim_mail_run by blast
  then show ?thesis by simp
qed


end
